theory Spec2Isabelle
  imports Main
begin

section \<open>JavaScript strings and the fenced-block pattern\<close>

text \<open>
  A response text is a \<^typ>\<open>string\<close>: the sequence of its code units, here those below 256.
  \<open>indexOf\<close> and \<open>lastIndexOf\<close> return \<open>-1\<close> when the character does not occur,
  and \<open>substring\<close> clamps its two arguments to the text and swaps them when the first
  is the larger, as \<open>String.prototype.substring\<close> does.
\<close>

fun indexOf :: "string \<Rightarrow> char \<Rightarrow> int" where
  "indexOf [] c = -1"
| "indexOf (x # xs) c =
     (if x = c then 0 else (let i = indexOf xs c in if i = -1 then -1 else i + 1))"

fun lastIndexOf :: "string \<Rightarrow> char \<Rightarrow> int" where
  "lastIndexOf [] c = -1"
| "lastIndexOf (x # xs) c =
     (let i = lastIndexOf xs c in
      if i \<noteq> -1 then i + 1 else if x = c then 0 else -1)"

definition substring :: "string \<Rightarrow> int \<Rightarrow> int \<Rightarrow> string" where
  "substring s a b =
     (let n = int (length s);
          a' = max 0 (min a n);
          b' = max 0 (min b n);
          lo = min a' b';
          hi = max a' b'
      in take (nat (hi - lo)) (drop (nat lo) s))"

text \<open>
  The character class \<open>\s\<close> of a JavaScript regular expression, on code units below 256:
  tab, line feed, vertical tab, form feed, carriage return, space and no-break space.
\<close>

definition isSpace :: "char \<Rightarrow> bool" where
  "isSpace c = (c \<in> set [CHR 0x09, CHR 0x0A, CHR 0x0B, CHR 0x0C, CHR 0x0D, CHR 0x20, CHR 0xA0])"

definition trimEnd :: "string \<Rightarrow> string" where
  "trimEnd s = rev (dropWhile isSpace (rev s))"

text \<open>
  \<open>splitFence s\<close> cuts \<open>s\<close> at the first occurrence of three backticks: the text before
  it and the text after it.
\<close>

fun splitFence :: "string \<Rightarrow> (string \<times> string) option" where
  "splitFence [] = None"
| "splitFence (c # cs) =
     (if take 3 (c # cs) = ''```'' then Some ([], drop 2 cs)
      else map_option (\<lambda>(a, b). (c # a, b)) (splitFence cs))"

text \<open>
  \<open>text.match(/```(?:json)?\s*([\s\S]*?)\s*```/)\<close>, reduced to its first capture group.
  The match starts at the leftmost fence. The optional tag and the first \<open>\s*\<close> are greedy
  and contain no backtick, so whenever a closing fence exists they take the tag and the
  whole run of white space; the lazy group then ends as early as a run of white space
  followed by a fence allows, which is the text up to the next fence without its trailing
  white space. With no second fence after the first one there is no match at any position.
\<close>

definition codeBlockMatch :: "string \<Rightarrow> string option" where
  "codeBlockMatch text =
     (case splitFence text of
        None \<Rightarrow> None
      | Some (before, r) \<Rightarrow>
          (let r1 = (if take 4 r = ''json'' then drop 4 r else r);
               r2 = dropWhile isSpace r1
           in case splitFence r2 of
                None \<Rightarrow> None
              | Some (body, rest) \<Rightarrow> Some (trimEnd body)))"

section \<open>JSON values and \<open>JSON.parse\<close>\<close>

text \<open>
  \<open>JSON.parse\<close> belongs to the language runtime. \<open>extractJson\<close> below takes the parser as
  a parameter, so every general statement holds for any parser; the concrete recogniser
  \<open>JSON_parse\<close> follows the JSON grammar (ECMA-404) and is used to evaluate the routine on
  explicit texts. A string value is decoded from its escapes, except that an escape
  \<open>\uXXXX\<close> of a code unit from 256 on stays as it is written, the strings of the model
  holding code units below 256. A number keeps its lexeme.
\<close>

datatype json =
    JNull
  | JBool bool
  | JNumber string
  | JString string
  | JArray "json list"
  | JObject "(string \<times> json) list"

definition isJsonWs :: "char \<Rightarrow> bool" where
  "isJsonWs c = (c \<in> set [CHR 0x20, CHR 0x09, CHR 0x0A, CHR 0x0D])"

definition isDigit :: "char \<Rightarrow> bool" where
  "isDigit c = (c \<in> set ''0123456789'')"

definition isHexDigit :: "char \<Rightarrow> bool" where
  "isHexDigit c = (c \<in> set ''0123456789abcdefABCDEF'')"

definition hexDigitValue :: "char \<Rightarrow> nat" where
  "hexDigitValue c =
     (if isDigit c then of_char c - 48
      else if c \<in> set ''abcdef'' then of_char c - 87
      else of_char c - 55)"

definition hexValue :: "string \<Rightarrow> nat" where
  "hexValue ds = foldl (\<lambda>n c. 16 * n + hexDigitValue c) 0 ds"

text \<open>The character that a two-character escape denotes, and the text of a \<open>\u\<close> escape.\<close>

definition simpleEscape :: "char \<Rightarrow> char" where
  "simpleEscape e =
     (if e = CHR ''b'' then CHR 0x08
      else if e = CHR ''f'' then CHR 0x0C
      else if e = CHR ''n'' then CHR 0x0A
      else if e = CHR ''r'' then CHR 0x0D
      else if e = CHR ''t'' then CHR 0x09
      else e)"

definition unicodeEscape :: "string \<Rightarrow> string" where
  "unicodeEscape ds =
     (if hexValue ds < 256 then [char_of (hexValue ds)] else CHR 0x5C # CHR ''u'' # ds)"

text \<open>\<open>scanString\<close> reads a string literal after its opening quote, up to the closing one.\<close>

fun scanString :: "string \<Rightarrow> (string \<times> string) option" where
  "scanString [] = None"
| "scanString (c # cs) =
     (if c = CHR 0x22 then Some ([], cs)
      else if c = CHR 0x5C then
        (case cs of
           [] \<Rightarrow> None
         | e # cs' \<Rightarrow>
             if e \<in> set [CHR 0x22, CHR 0x5C, CHR ''/'', CHR ''b'', CHR ''f'', CHR ''n'', CHR ''r'', CHR ''t'']
             then map_option (\<lambda>(s, r). (simpleEscape e # s, r)) (scanString cs')
             else if e = CHR ''u'' \<and> 4 \<le> length cs' \<and> list_all isHexDigit (take 4 cs')
             then map_option (\<lambda>(s, r). (unicodeEscape (take 4 cs') @ s, r))
                    (scanString (drop 4 cs'))
             else None)
      else if (of_char c :: nat) < 0x20 then None
      else map_option (\<lambda>(s, r). (c # s, r)) (scanString cs))"

definition scanDigits1 :: "string \<Rightarrow> (string \<times> string) option" where
  "scanDigits1 s =
     (let ds = takeWhile isDigit s in
      if ds = [] then None else Some (ds, dropWhile isDigit s))"

definition scanInt :: "string \<Rightarrow> (string \<times> string) option" where
  "scanInt s =
     (case s of
        [] \<Rightarrow> None
      | c # cs \<Rightarrow> if c = CHR ''0'' then Some ([c], cs) else scanDigits1 s)"

definition scanFrac :: "string \<Rightarrow> (string \<times> string) option" where
  "scanFrac s =
     (case s of
        [] \<Rightarrow> Some ([], s)
      | c # cs \<Rightarrow>
          if c = CHR ''.'' then map_option (\<lambda>(ds, r). (c # ds, r)) (scanDigits1 cs)
          else Some ([], s))"

definition scanExp :: "string \<Rightarrow> (string \<times> string) option" where
  "scanExp s =
     (case s of
        [] \<Rightarrow> Some ([], s)
      | c # cs \<Rightarrow>
          if c = CHR ''e'' \<or> c = CHR ''E'' then
            (case cs of
               [] \<Rightarrow> None
             | g # cs' \<Rightarrow>
                 if g = CHR ''+'' \<or> g = CHR ''-''
                 then map_option (\<lambda>(ds, r). (c # g # ds, r)) (scanDigits1 cs')
                 else map_option (\<lambda>(ds, r). (c # ds, r)) (scanDigits1 cs))
          else Some ([], s))"

definition scanNumber :: "string \<Rightarrow> (string \<times> string) option" where
  "scanNumber s =
     (let (sign, s0) = (case s of [] \<Rightarrow> ([], s) | c # cs \<Rightarrow> if c = CHR ''-'' then ([c], cs) else ([], s))
      in case scanInt s0 of
           None \<Rightarrow> None
         | Some (ip, s1) \<Rightarrow>
             (case scanFrac s1 of
                None \<Rightarrow> None
              | Some (fp, s2) \<Rightarrow>
                  (case scanExp s2 of
                     None \<Rightarrow> None
                   | Some (ep, s3) \<Rightarrow> Some (sign @ ip @ fp @ ep, s3))))"

text \<open>
  The recursive descent is bounded by a counter: every call either consumes a character
  or is followed by one that does, so twice the length of the text is enough.
\<close>

fun parseValue :: "nat \<Rightarrow> string \<Rightarrow> (json \<times> string) option"
  and parseElements :: "nat \<Rightarrow> string \<Rightarrow> (json list \<times> string) option"
  and parseMembers :: "nat \<Rightarrow> string \<Rightarrow> ((string \<times> json) list \<times> string) option"
where
  "parseValue 0 s = None"
| "parseValue (Suc n) s =
     (case dropWhile isJsonWs s of
        [] \<Rightarrow> None
      | c # cs \<Rightarrow>
          if c = CHR ''{'' then
            (if take 1 (dropWhile isJsonWs cs) = ''}''
             then Some (JObject [], drop 1 (dropWhile isJsonWs cs))
             else map_option (\<lambda>(ms, r). (JObject ms, r)) (parseMembers n cs))
          else if c = CHR ''['' then
            (if take 1 (dropWhile isJsonWs cs) = '']''
             then Some (JArray [], drop 1 (dropWhile isJsonWs cs))
             else map_option (\<lambda>(vs, r). (JArray vs, r)) (parseElements n cs))
          else if c = CHR 0x22 then map_option (\<lambda>(str, r). (JString str, r)) (scanString cs)
          else if take 4 (c # cs) = ''true'' then Some (JBool True, drop 3 cs)
          else if take 5 (c # cs) = ''false'' then Some (JBool False, drop 4 cs)
          else if take 4 (c # cs) = ''null'' then Some (JNull, drop 3 cs)
          else map_option (\<lambda>(num, r). (JNumber num, r)) (scanNumber (c # cs)))"
| "parseElements 0 s = None"
| "parseElements (Suc n) s =
     (case parseValue n s of
        None \<Rightarrow> None
      | Some (v, r) \<Rightarrow>
          (case dropWhile isJsonWs r of
             [] \<Rightarrow> None
           | c # r' \<Rightarrow>
               if c = CHR '','' then map_option (\<lambda>(vs, r''). (v # vs, r'')) (parseElements n r')
               else if c = CHR '']'' then Some ([v], r')
               else None))"
| "parseMembers 0 s = None"
| "parseMembers (Suc n) s =
     (case dropWhile isJsonWs s of
        [] \<Rightarrow> None
      | q # cs \<Rightarrow>
          if q \<noteq> CHR 0x22 then None
          else
            (case scanString cs of
               None \<Rightarrow> None
             | Some (k, r) \<Rightarrow>
                 (case dropWhile isJsonWs r of
                    [] \<Rightarrow> None
                  | c # r1 \<Rightarrow>
                      if c \<noteq> CHR '':'' then None
                      else
                        (case parseValue n r1 of
                           None \<Rightarrow> None
                         | Some (v, r2) \<Rightarrow>
                             (case dropWhile isJsonWs r2 of
                                [] \<Rightarrow> None
                              | d # r3 \<Rightarrow>
                                  if d = CHR '','' then
                                    map_option (\<lambda>(ms, r4). ((k, v) # ms, r4)) (parseMembers n r3)
                                  else if d = CHR ''}'' then Some ([(k, v)], r3)
                                  else None)))))"

definition JSON_parse :: "string \<Rightarrow> json option" where
  "JSON_parse text =
     (case parseValue (2 * length text + 2) text of
        None \<Rightarrow> None
      | Some (v, r) \<Rightarrow> if dropWhile isJsonWs r = [] then Some v else None)"

section \<open>The response repair routine\<close>

datatype error = Error string | TypeError

definition invalidFormat :: error where
  "invalidFormat = Error ''The model generated an invalid format. Please try again.''"

text \<open>
  \<open>extractJson\<close>: inside the \<open>try\<close>, the content of a fenced block is parsed when the
  pattern matches, and the raw text otherwise; a failure of either parse enters the
  \<open>catch\<close>, which parses the text from the first \<open>{\<close> to the last \<open>}\<close> when both occur,
  and throws the error otherwise.
\<close>

definition extractJson :: "(string \<Rightarrow> 'j option) \<Rightarrow> string \<Rightarrow> error + 'j" where
  "extractJson parse text =
     (case (case codeBlockMatch text of
              Some block \<Rightarrow> parse block
            | None \<Rightarrow> parse text) of
        Some v \<Rightarrow> Inr v
      | None \<Rightarrow>
          (let firstOpen = indexOf text (CHR ''{'');
               lastClose = lastIndexOf text (CHR ''}'')
           in case (if firstOpen \<noteq> -1 \<and> lastClose \<noteq> -1
                    then parse (substring text firstOpen (lastClose + 1))
                    else None) of
                Some v \<Rightarrow> Inr v
              | None \<Rightarrow> Inl invalidFormat))"

section \<open>Dates\<close>

text \<open>
  A \<open>Date\<close> is modelled by its local time value: the milliseconds that the local clock
  shows since the local epoch, under a fixed offset from UTC. The field functions follow
  the time-value algorithms of ECMA-262 (Day, TimeWithinDay, DayFromYear, YearFromTime,
  MonthFromTime, DateFromTime, MakeDay, MakeDate); the \<open>Date\<close> methods the program calls
  are defined from them.
\<close>

definition msPerDay :: int where
  "msPerDay = 86400000"

definition Day :: "int \<Rightarrow> int" where
  "Day t = t div msPerDay"

definition TimeWithinDay :: "int \<Rightarrow> int" where
  "TimeWithinDay t = t mod msPerDay"

definition DaysInYear :: "int \<Rightarrow> int" where
  "DaysInYear y =
     (if y mod 4 \<noteq> 0 then 365
      else if y mod 100 \<noteq> 0 then 366
      else if y mod 400 \<noteq> 0 then 365
      else 366)"

definition DayFromYear :: "int \<Rightarrow> int" where
  "DayFromYear y =
     365 * (y - 1970) + (y - 1969) div 4 - (y - 1901) div 100 + (y - 1601) div 400"

text \<open>
  \<open>YearFromTime t\<close> is the largest year that starts no later than \<open>t\<close>; \<open>yearDown\<close>
  searches it downwards from a year that is not too small.
\<close>

function yearDown :: "int \<Rightarrow> int \<Rightarrow> int" where
  "yearDown d y = (if DayFromYear y \<le> d then y else yearDown d (y - 1))"
  by pat_completeness auto
termination
proof (relation "measure (\<lambda>(d, y). nat (DayFromYear y - d))")
  show "wf (measure (\<lambda>(d, y). nat (DayFromYear y - d)))"
    by simp
next
  fix d y :: int
  assume above: "\<not> DayFromYear y \<le> d"
  have step: "365 * (y - 1 - 1970) + a' - b' + c' < 365 * (y - 1970) + a - b + c"
    if "a' \<le> a" and "b \<le> b' + 1" and "c' \<le> c" for a a' b b' c c' :: int
    using that by presburger
  have a: "(y - 1 - 1969) div 4 \<le> (y - 1969) div 4"
    by (rule zdiv_mono1) simp_all
  have "(y - 1901) div 100 \<le> (y - 1 - 1901 + 100) div 100"
    by (rule zdiv_mono1) simp_all
  then have b: "(y - 1901) div 100 \<le> (y - 1 - 1901) div 100 + 1"
    by simp
  have c: "(y - 1 - 1601) div 400 \<le> (y - 1601) div 400"
    by (rule zdiv_mono1) simp_all
  have "DayFromYear (y - 1) < DayFromYear y"
    unfolding DayFromYear_def by (rule step [OF a b c])
  with above show "((d, y - 1), (d, y)) \<in> measure (\<lambda>(d, y). nat (DayFromYear y - d))"
    by simp
qed

declare yearDown.simps [simp del]

definition YearFromTime :: "int \<Rightarrow> int" where
  "YearFromTime t = yearDown (Day t) (1970 + max 0 (Day t div 365))"

definition InLeapYear :: "int \<Rightarrow> bool" where
  "InLeapYear t = (DaysInYear (YearFromTime t) = 366)"

definition DayWithinYear :: "int \<Rightarrow> int" where
  "DayWithinYear t = Day t - DayFromYear (YearFromTime t)"

text \<open>The number of days of a year that lie before its month \<open>m\<close> (0 is January).\<close>

definition daysBeforeMonth :: "int \<Rightarrow> bool \<Rightarrow> int" where
  "daysBeforeMonth m leap =
     (let l = (if leap then 1 else 0) in
      if m = 0 then 0
      else if m = 1 then 31
      else if m = 2 then 59 + l
      else if m = 3 then 90 + l
      else if m = 4 then 120 + l
      else if m = 5 then 151 + l
      else if m = 6 then 181 + l
      else if m = 7 then 212 + l
      else if m = 8 then 243 + l
      else if m = 9 then 273 + l
      else if m = 10 then 304 + l
      else 334 + l)"

definition MonthFromTime :: "int \<Rightarrow> int" where
  "MonthFromTime t =
     (let d = DayWithinYear t; leap = InLeapYear t in
      if d < daysBeforeMonth 1 leap then 0
      else if d < daysBeforeMonth 2 leap then 1
      else if d < daysBeforeMonth 3 leap then 2
      else if d < daysBeforeMonth 4 leap then 3
      else if d < daysBeforeMonth 5 leap then 4
      else if d < daysBeforeMonth 6 leap then 5
      else if d < daysBeforeMonth 7 leap then 6
      else if d < daysBeforeMonth 8 leap then 7
      else if d < daysBeforeMonth 9 leap then 8
      else if d < daysBeforeMonth 10 leap then 9
      else if d < daysBeforeMonth 11 leap then 10
      else 11)"

definition DateFromTime :: "int \<Rightarrow> int" where
  "DateFromTime t = DayWithinYear t - daysBeforeMonth (MonthFromTime t) (InLeapYear t) + 1"

definition MakeDay :: "int \<Rightarrow> int \<Rightarrow> int \<Rightarrow> int" where
  "MakeDay year month date =
     (let ym = year + month div 12;
          mn = month mod 12
      in DayFromYear ym + daysBeforeMonth mn (DaysInYear ym = 366) + date - 1)"

definition MakeDate :: "int \<Rightarrow> int \<Rightarrow> int" where
  "MakeDate day time = day * msPerDay + time"

definition getFullYear :: "int \<Rightarrow> int" where
  "getFullYear t = YearFromTime t"

definition getMonth :: "int \<Rightarrow> int" where
  "getMonth t = MonthFromTime t"

definition getDate :: "int \<Rightarrow> int" where
  "getDate t = DateFromTime t"

text \<open>\<open>d.setDate(n)\<close> and \<open>d.setHours(0, 0, 0, 0)\<close>, returning the new time value.\<close>

definition setDate :: "int \<Rightarrow> int \<Rightarrow> int" where
  "setDate t n = MakeDate (MakeDay (YearFromTime t) (MonthFromTime t) n) (TimeWithinDay t)"

definition setHours0 :: "int \<Rightarrow> int" where
  "setHours0 t = MakeDate (Day t) 0"

text \<open>The time value of local midnight on a calendar date (month 0 is January).\<close>

definition dateOf :: "int \<Rightarrow> int \<Rightarrow> int \<Rightarrow> int" where
  "dateOf year month date = MakeDate (MakeDay year month date) 0"

section \<open>The data model\<close>

text \<open>
  The interfaces of the program's type declarations. An optional field is an \<open>option\<close>;
  \<open>number\<close> fields hold integers; the ISO timestamps \<open>startDate\<close> and \<open>lastUpdated\<close>
  are held as the time values they denote.
\<close>

datatype ResourceType = video | blog | documentation | other

record Resource =
  resourceTitle :: string
  url :: string
  resourceType :: ResourceType

record Task =
  taskId :: string
  taskText :: string
  isCompleted :: bool
  resources :: "Resource list option"

record Session =
  start :: int
  endTime :: "int option"

record DayPlan =
  dayNumber :: int
  title :: string
  description :: string
  tasks :: "Task list"
  dayNotes :: "string option"
  sessions :: "Session list option"

record LearningPlan =
  planId :: string
  topic :: string
  durationDays :: int
  dailyTime :: string
  startDate :: int
  lastUpdated :: int
  days :: "DayPlan list"

record QuizQuestion =
  question :: string
  options :: "string list"
  correctAnswerIndex :: int
  explanation :: string

section \<open>The calendar view\<close>

text \<open>
  \<open>PlanCalendar\<close> works with the plan's start date and with today, both set to local
  midnight. \<open>getDayDate\<close> copies the start date and sets its day of the month to the start
  date's day of the month plus \<open>dayNumber - 1\<close>.
\<close>

definition calendarStartDate :: "LearningPlan \<Rightarrow> int" where
  "calendarStartDate plan = setHours0 (startDate plan)"

definition calendarToday :: "int \<Rightarrow> int" where
  "calendarToday now = setHours0 now"

definition getDayDate :: "int \<Rightarrow> int \<Rightarrow> int" where
  "getDayDate startDate' n = setDate startDate' (getDate startDate' + (n - 1))"

definition isSameDay :: "int \<Rightarrow> int \<Rightarrow> bool" where
  "isSameDay d1 d2 =
     (getFullYear d1 = getFullYear d2 \<and> getMonth d1 = getMonth d2 \<and> getDate d1 = getDate d2)"

text \<open>The four background classes that \<open>getStatusColor\<close> returns.\<close>

definition completedStyle :: string where
  "completedStyle = ''bg-emerald-50 text-emerald-900''"

definition missedStyle :: string where
  "missedStyle = ''bg-red-50 text-red-900''"

definition todayStyle :: string where
  "todayStyle = ''bg-white text-indigo-900''"

definition defaultStyle :: string where
  "defaultStyle = ''bg-white text-gray-700''"

definition getStatusColor :: "int \<Rightarrow> DayPlan \<Rightarrow> int \<Rightarrow> bool \<Rightarrow> string" where
  "getStatusColor today day date isSelected =
     (let allCompleted = (length (tasks day) > 0 \<and> list_all isCompleted (tasks day));
          isPast = (date < today);
          isToday = isSameDay date today
      in if allCompleted then completedStyle
         else if isPast \<and> \<not> allCompleted then missedStyle
         else if isToday then todayStyle
         else defaultStyle)"

text \<open>The class of one day cell, as the render loop computes it.\<close>

definition dayCellStatus :: "int \<Rightarrow> LearningPlan \<Rightarrow> DayPlan option \<Rightarrow> DayPlan \<Rightarrow> string" where
  "dayCellStatus now plan selected day =
     (let date = getDayDate (calendarStartDate plan) (dayNumber day);
          isSelected = (case selected of None \<Rightarrow> False | Some sel \<Rightarrow> dayNumber sel = dayNumber day)
      in getStatusColor (calendarToday now) day date isSelected)"

section \<open>The quiz\<close>

text \<open>
  The recorded answers are a JavaScript array that \<open>handleAnswer\<close> writes by index, so it
  can have holes and can be shorter than the question list: reading a hole or past the
  end gives \<open>undefined\<close>, here \<open>None\<close>.
\<close>

definition answerAt :: "int option list \<Rightarrow> nat \<Rightarrow> int option" where
  "answerAt userAnswers idx = (if idx < length userAnswers then userAnswers ! idx else None)"

definition handleAnswer :: "nat \<Rightarrow> int \<Rightarrow> int option list \<Rightarrow> int option list" where
  "handleAnswer currentIndex optionIndex userAnswers =
     (if currentIndex < length userAnswers then userAnswers[currentIndex := Some optionIndex]
      else userAnswers @ replicate (currentIndex - length userAnswers) None @ [Some optionIndex])"

definition calculateScore :: "QuizQuestion list \<Rightarrow> int option list \<Rightarrow> nat" where
  "calculateScore questions userAnswers =
     fold (\<lambda>(idx, q) score.
             if answerAt userAnswers idx = Some (correctAnswerIndex q) then score + 1 else score)
          (enumerate 0 questions) 0"

section \<open>The plan service\<close>

text \<open>
  The value that \<open>extractJson\<close> returns is used through the shape that the prompt asks
  for: an object with a \<open>days\<close> array whose entries have a \<open>tasks\<close> array, a task being
  a plain string or an object with a text and optional resources. A missing \<open>days\<close> or
  \<open>tasks\<close> array makes \<open>.map\<close> throw a \<open>TypeError\<close>, and so does reading a property of
  an entry that is \<open>null\<close>; both are \<open>None\<close> here.
\<close>

datatype RawTask = TaskString string | TaskObject string "Resource list option"

record RawDay =
  rawDayNumber :: int
  rawTitle :: string
  rawDescription :: string
  rawTasks :: "RawTask list option"

record RawPlan =
  rawTopic :: string
  rawDurationDays :: int
  rawDailyTime :: string
  rawDays :: "RawDay list option"

text \<open>What \<open>generateLearningPlan\<close> returns: a plan without id and timestamps.\<close>

record PlanData =
  dataTopic :: string
  dataDurationDays :: int
  dataDailyTime :: string
  dataDays :: "DayPlan list"

text \<open>Decimal numerals, as a template literal prints an integer.\<close>

definition digitChar :: "nat \<Rightarrow> char" where
  "digitChar d = char_of (48 + d)"

fun showNat :: "nat \<Rightarrow> string" where
  "showNat n = (if n < 10 then [digitChar n] else showNat (n div 10) @ [digitChar (n mod 10)])"

declare showNat.simps [simp del]

definition showInt :: "int \<Rightarrow> string" where
  "showInt i = (if i < 0 then CHR ''-'' # showNat (nat (- i)) else showNat (nat i))"

definition generatedTaskId :: "int \<Rightarrow> nat \<Rightarrow> string" where
  "generatedTaskId dn idx = ''task-'' @ showInt dn @ ''-'' @ showNat idx"

definition refinedTaskId :: "int \<Rightarrow> nat \<Rightarrow> int \<Rightarrow> string" where
  "refinedTaskId dn idx now = ''task-'' @ showInt dn @ ''-'' @ showNat idx @ ''-'' @ showInt now"

definition formatTask :: "string \<Rightarrow> RawTask \<Rightarrow> Task" where
  "formatTask ident t =
     \<lparr>taskId = ident,
      taskText = (case t of TaskString str \<Rightarrow> str | TaskObject txt rs \<Rightarrow> txt),
      isCompleted = False,
      resources = Some (case t of
                          TaskString str \<Rightarrow> []
                        | TaskObject txt rs \<Rightarrow> (case rs of Some r \<Rightarrow> r | None \<Rightarrow> []))\<rparr>"

text \<open>
  One entry of \<open>data.days.map(...)\<close>: the object literal has the four fields
  \<open>dayNumber\<close>, \<open>title\<close>, \<open>description\<close> and \<open>tasks\<close> and no others. \<open>mkTaskId\<close> builds
  the identifier of the task at an index.
\<close>

definition formatDay :: "(int \<Rightarrow> nat \<Rightarrow> string) \<Rightarrow> RawDay \<Rightarrow> error + DayPlan" where
  "formatDay mkTaskId d =
     (case rawTasks d of
        None \<Rightarrow> Inl TypeError
      | Some ts \<Rightarrow>
          Inr \<lparr>dayNumber = rawDayNumber d,
               title = rawTitle d,
               description = rawDescription d,
               tasks = map (\<lambda>(idx, t). formatTask (mkTaskId (rawDayNumber d) idx) t) (enumerate 0 ts),
               dayNotes = None,
               sessions = None\<rparr>)"

fun mapResult :: "('a \<Rightarrow> error + 'b) \<Rightarrow> 'a list \<Rightarrow> error + 'b list" where
  "mapResult f [] = Inr []"
| "mapResult f (x # xs) =
     (case f x of
        Inl e \<Rightarrow> Inl e
      | Inr y \<Rightarrow> (case mapResult f xs of Inl e \<Rightarrow> Inl e | Inr ys \<Rightarrow> Inr (y # ys)))"

definition noResponse :: error where
  "noResponse = Error ''No response from Gemini''"

text \<open>
  The call of the model is the parameter \<open>response\<close>: \<open>Inl e\<close> when the call throws,
  otherwise the \<open>text\<close> of the answer, which can be undefined. The topic, the duration
  and the user's request go into the prompt only, so they reach the result through the
  response alone.
\<close>

definition generateLearningPlan ::
  "(string \<Rightarrow> RawPlan option) \<Rightarrow> error + string option \<Rightarrow> error + PlanData" where
  "generateLearningPlan parse response =
     (case response of
        Inl e \<Rightarrow> Inl e
      | Inr None \<Rightarrow> Inl noResponse
      | Inr (Some text) \<Rightarrow>
          if text = [] then Inl noResponse
          else
            (case extractJson parse text of
               Inl e \<Rightarrow> Inl e
             | Inr data \<Rightarrow>
                 (case rawDays data of
                    None \<Rightarrow> Inl TypeError
                  | Some ds \<Rightarrow>
                      (case mapResult (formatDay generatedTaskId) ds of
                         Inl e \<Rightarrow> Inl e
                       | Inr formattedDays \<Rightarrow>
                           Inr \<lparr>dataTopic = rawTopic data,
                                dataDurationDays = rawDurationDays data,
                                dataDailyTime = rawDailyTime data,
                                dataDays = formattedDays\<rparr>))))"

text \<open>
  \<open>updatePlanWithChat\<close>: \<open>clock dn idx\<close> is what \<open>Date.now()\<close> returns while the task at
  index \<open>idx\<close> of the day numbered \<open>dn\<close> is built, and \<open>updatedAt\<close> is the time of the
  final \<open>new Date()\<close>.
\<close>

definition updatePlanWithChat ::
  "(string \<Rightarrow> RawPlan option) \<Rightarrow> (int \<Rightarrow> nat \<Rightarrow> int) \<Rightarrow> int \<Rightarrow> LearningPlan \<Rightarrow>
     error + string option \<Rightarrow> error + LearningPlan" where
  "updatePlanWithChat parse clock updatedAt currentPlan response =
     (case response of
        Inl e \<Rightarrow> Inl e
      | Inr None \<Rightarrow> Inl noResponse
      | Inr (Some text) \<Rightarrow>
          if text = [] then Inl noResponse
          else
            (case extractJson parse text of
               Inl e \<Rightarrow> Inl e
             | Inr data \<Rightarrow>
                 (case rawDays data of
                    None \<Rightarrow> Inl TypeError
                  | Some ds \<Rightarrow>
                      (case mapResult (formatDay (\<lambda>dn idx. refinedTaskId dn idx (clock dn idx))) ds of
                         Inl e \<Rightarrow> Inl e
                       | Inr updatedDays \<Rightarrow>
                           Inr (currentPlan\<lparr>days := updatedDays,
                                            durationDays := int (length updatedDays),
                                            lastUpdated := updatedAt\<rparr>)))))"

text \<open>\<open>PlanWizard\<close>: the plan made from a generated plan, an identifier and the current time.\<close>

definition newPlan :: "PlanData \<Rightarrow> string \<Rightarrow> int \<Rightarrow> int \<Rightarrow> LearningPlan" where
  "newPlan planData uuid created updated =
     \<lparr>planId = uuid,
      topic = dataTopic planData,
      durationDays = dataDurationDays planData,
      dailyTime = dataDailyTime planData,
      startDate = created,
      lastUpdated = updated,
      days = dataDays planData\<rparr>"

section \<open>The application state and its handlers\<close>

datatype ViewMode = create | view

record AppState =
  plans :: "LearningPlan list"
  activePlanId :: "string option"
  viewMode :: ViewMode
  selectedDay :: "DayPlan option"
  isSidePanelOpen :: bool

definition initialState :: AppState where
  "initialState =
     \<lparr>plans = [], activePlanId = None, viewMode = view, selectedDay = None,
      isSidePanelOpen = False\<rparr>"

text \<open>\<open>activePlanId\<close> as a condition: \<open>null\<close> and the empty string are falsy.\<close>

definition truthy :: "string option \<Rightarrow> bool" where
  "truthy v = (case v of None \<Rightarrow> False | Some str \<Rightarrow> str \<noteq> [])"

text \<open>The stored collection read on mount: absent, unparseable, or a list of plans.\<close>

datatype Saved = Absent | Corrupt | Stored "LearningPlan list"

definition loadEffect :: "Saved \<Rightarrow> AppState \<Rightarrow> AppState" where
  "loadEffect saved s =
     (case saved of
        Absent \<Rightarrow> s\<lparr>viewMode := create\<rparr>
      | Corrupt \<Rightarrow> s
      | Stored parsedPlans \<Rightarrow>
          (case parsedPlans of
             [] \<Rightarrow> s\<lparr>plans := parsedPlans, viewMode := create\<rparr>
           | p # ps \<Rightarrow> s\<lparr>plans := parsedPlans, activePlanId := Some (planId p)\<rparr>))"

definition ceilDiv :: "int \<Rightarrow> int \<Rightarrow> int" where
  "ceilDiv a b = - ((- a) div b)"

text \<open>
  The effect that selects today's day: \<open>today\<close> is set to local midnight, the start date
  is taken as stored. Both are local time values, so their difference is the one the
  program computes in a zone whose offset does not change between the two.
\<close>

definition autoSelectTarget :: "int \<Rightarrow> LearningPlan \<Rightarrow> DayPlan option" where
  "autoSelectTarget now plan =
     (let today = setHours0 now;
          startDate' = startDate plan;
          diffTime = \<bar>today - startDate'\<bar>;
          diffDays = ceilDiv diffTime (1000 * 60 * 60 * 24)
      in if today \<ge> startDate' \<and> diffDays < int (length (days plan))
         then find (\<lambda>d. dayNumber d = diffDays + 1) (days plan)
         else None)"

definition autoSelectEffect :: "int \<Rightarrow> AppState \<Rightarrow> AppState" where
  "autoSelectEffect now s =
     (if truthy (activePlanId s) \<and> length (plans s) > 0 then
        (case find (\<lambda>p. Some (planId p) = activePlanId s) (plans s) of
           None \<Rightarrow> s
         | Some plan \<Rightarrow>
             (case autoSelectTarget now plan of
                None \<Rightarrow> s
              | Some targetDay \<Rightarrow> s\<lparr>selectedDay := Some targetDay\<rparr>))
      else s)"

text \<open>Opening a plan from the sidebar, followed by the effect.\<close>

definition openPlan :: "int \<Rightarrow> string \<Rightarrow> AppState \<Rightarrow> AppState" where
  "openPlan now pid s = autoSelectEffect now (s\<lparr>activePlanId := Some pid, viewMode := view\<rparr>)"

definition handleCreatePlan :: "LearningPlan \<Rightarrow> AppState \<Rightarrow> AppState" where
  "handleCreatePlan newPlan' s =
     s\<lparr>plans := newPlan' # plans s,
       activePlanId := Some (planId newPlan'),
       viewMode := view,
       selectedDay := (case days newPlan' of [] \<Rightarrow> None | d # ds \<Rightarrow> Some d),
       isSidePanelOpen := True\<rparr>"

definition handleDeletePlan :: "string \<Rightarrow> bool \<Rightarrow> AppState \<Rightarrow> AppState" where
  "handleDeletePlan ident confirmed s =
     (if confirmed then
        (let newPlans = filter (\<lambda>p. planId p \<noteq> ident) (plans s) in
         if activePlanId s = Some ident then
           s\<lparr>plans := newPlans,
             activePlanId := (case newPlans of [] \<Rightarrow> None | p # ps \<Rightarrow> Some (planId p)),
             viewMode := (if newPlans = [] then create else viewMode s)\<rparr>
         else s\<lparr>plans := newPlans\<rparr>)
      else s)"

text \<open>
  The three updating handlers share one shape: \<open>prevPlans.map\<close> returns every plan whose
  id is not the active one as it is, and the active plan with its days mapped.
\<close>

definition mapActiveDays ::
  "string option \<Rightarrow> (DayPlan \<Rightarrow> DayPlan) \<Rightarrow> LearningPlan list \<Rightarrow> LearningPlan list" where
  "mapActiveDays active f prevPlans =
     map (\<lambda>plan. if Some (planId plan) \<noteq> active then plan
                  else plan\<lparr>days := map f (days plan)\<rparr>) prevPlans"

definition toggleTaskOfDay :: "int \<Rightarrow> string \<Rightarrow> DayPlan \<Rightarrow> DayPlan" where
  "toggleTaskOfDay dn tid day =
     (if dayNumber day \<noteq> dn then day
      else day\<lparr>tasks := map (\<lambda>task.
             if taskId task = tid then task\<lparr>isCompleted := \<not> isCompleted task\<rparr> else task)
           (tasks day)\<rparr>)"

definition handleToggleTask :: "int \<Rightarrow> string \<Rightarrow> AppState \<Rightarrow> AppState" where
  "handleToggleTask dn tid s =
     (if \<not> truthy (activePlanId s) then s
      else s\<lparr>plans := mapActiveDays (activePlanId s) (toggleTaskOfDay dn tid) (plans s)\<rparr>)"

definition updateNotesOfDay :: "int \<Rightarrow> string \<Rightarrow> DayPlan \<Rightarrow> DayPlan" where
  "updateNotesOfDay dn notes' day =
     (if dayNumber day \<noteq> dn then day else day\<lparr>dayNotes := Some notes'\<rparr>)"

definition handleUpdateNotes :: "int \<Rightarrow> string \<Rightarrow> AppState \<Rightarrow> AppState" where
  "handleUpdateNotes dn notes' s =
     (if \<not> truthy (activePlanId s) then s
      else s\<lparr>plans := mapActiveDays (activePlanId s) (updateNotesOfDay dn notes') (plans s)\<rparr>)"

text \<open>The new session list of the day that \<open>handleSessionToggle\<close> addresses.\<close>

definition toggleSessions :: "int \<Rightarrow> Session list option \<Rightarrow> Session list" where
  "toggleSessions now stored =
     (let sessions' = (case stored of Some ss \<Rightarrow> ss | None \<Rightarrow> []);
          isRunning = (length sessions' > 0 \<and> endTime (last sessions') = None)
      in if isRunning
         then sessions'[length sessions' - 1 := (last sessions')\<lparr>endTime := Some now\<rparr>]
         else sessions' @ [\<lparr>start = now, endTime = None\<rparr>])"

definition toggleSessionOfDay :: "int \<Rightarrow> int \<Rightarrow> DayPlan \<Rightarrow> DayPlan" where
  "toggleSessionOfDay now dn day =
     (if dayNumber day \<noteq> dn then day
      else day\<lparr>sessions := Some (toggleSessions now (sessions day))\<rparr>)"

definition handleSessionToggle :: "int \<Rightarrow> int \<Rightarrow> AppState \<Rightarrow> AppState" where
  "handleSessionToggle now dn s =
     (if \<not> truthy (activePlanId s) then s
      else s\<lparr>plans := mapActiveDays (activePlanId s) (toggleSessionOfDay now dn) (plans s)\<rparr>)"

definition handleUpdatePlan :: "LearningPlan \<Rightarrow> AppState \<Rightarrow> AppState" where
  "handleUpdatePlan updatedPlan s =
     s\<lparr>plans := map (\<lambda>p. if planId p = planId updatedPlan then updatedPlan else p) (plans s)\<rparr>"

section \<open>The repair cascade as the specification words it\<close>

text \<open>
  The three strategies of the specification, each a fallible parse of the response text,
  and the cascade that tries them in order and returns the first success.
\<close>

definition fencedBlockStrategy :: "(string \<Rightarrow> 'j option) \<Rightarrow> string \<Rightarrow> 'j option" where
  "fencedBlockStrategy parse text =
     (case codeBlockMatch text of None \<Rightarrow> None | Some block \<Rightarrow> parse block)"

definition rawTextStrategy :: "(string \<Rightarrow> 'j option) \<Rightarrow> string \<Rightarrow> 'j option" where
  "rawTextStrategy parse text = parse text"

definition braceSubstringStrategy :: "(string \<Rightarrow> 'j option) \<Rightarrow> string \<Rightarrow> 'j option" where
  "braceSubstringStrategy parse text =
     (let firstOpen = indexOf text (CHR ''{'');
          lastClose = lastIndexOf text (CHR ''}'')
      in if firstOpen \<noteq> -1 \<and> lastClose \<noteq> -1
         then parse (substring text firstOpen (lastClose + 1))
         else None)"

fun firstSuccess :: "'a option list \<Rightarrow> 'a option" where
  "firstSuccess [] = None"
| "firstSuccess (None # rs) = firstSuccess rs"
| "firstSuccess (Some v # rs) = Some v"

definition repairCascade :: "(string \<Rightarrow> 'j option) \<Rightarrow> string \<Rightarrow> error + 'j" where
  "repairCascade parse text =
     (case firstSuccess [fencedBlockStrategy parse text,
                         rawTextStrategy parse text,
                         braceSubstringStrategy parse text] of
        Some v \<Rightarrow> Inr v
      | None \<Rightarrow> Inl invalidFormat)"

section \<open>The open-session invariant and the reachable states\<close>

text \<open>
  A session is open when its end is \<open>null\<close>. The invariant of a day's session sequence:
  at most one session is open, and if one is open then the last one is.
\<close>

definition isOpen :: "Session \<Rightarrow> bool" where
  "isOpen x = (endTime x = None)"

definition openSessionInv :: "Session list \<Rightarrow> bool" where
  "openSessionInv ss =
     (length (filter isOpen ss) \<le> 1 \<and> (list_ex isOpen ss \<longrightarrow> isOpen (last ss)))"

definition dayInv :: "DayPlan \<Rightarrow> bool" where
  "dayInv day = (case sessions day of None \<Rightarrow> True | Some ss \<Rightarrow> openSessionInv ss)"

definition planInv :: "LearningPlan \<Rightarrow> bool" where
  "planInv plan = list_all dayInv (days plan)"

definition storeInv :: "AppState \<Rightarrow> bool" where
  "storeInv s = list_all planInv (plans s)"

text \<open>
  The plans that \<open>PlanWizard\<close> hands to \<open>handleCreatePlan\<close>: a generated plan, refined any
  number of times by \<open>updatePlanWithChat\<close>.
\<close>

inductive wizardPlan :: "LearningPlan \<Rightarrow> bool" where
  generated:
    "generateLearningPlan parse response = Inr planData \<Longrightarrow>
     wizardPlan (newPlan planData uuid created updated)"
| refined:
    "wizardPlan p \<Longrightarrow>
     updatePlanWithChat parse clock updatedAt p response = Inr p' \<Longrightarrow>
     wizardPlan p'"

text \<open>
  The states of the application: it starts from the initial state and the stored
  collection, which is absent, unparseable, or the collection of an earlier state; then
  every handler and effect applies. The plan that \<open>EditPlanModal\<close> refines is a plan of
  some state; the handlers that touch only the view are collected in one rule.
\<close>

inductive reachable :: "AppState \<Rightarrow> bool" where
  start_absent: "reachable (loadEffect Absent initialState)"
| start_corrupt: "reachable (loadEffect Corrupt initialState)"
| start_stored: "reachable s \<Longrightarrow> reachable (loadEffect (Stored (plans s)) initialState)"
| auto_select: "reachable s \<Longrightarrow> reachable (autoSelectEffect now s)"
| open_plan: "reachable s \<Longrightarrow> reachable (openPlan now pid s)"
| view_change:
    "reachable s \<Longrightarrow>
     reachable (s\<lparr>viewMode := m, selectedDay := sel, isSidePanelOpen := b\<rparr>)"
| create_plan: "reachable s \<Longrightarrow> wizardPlan p \<Longrightarrow> reachable (handleCreatePlan p s)"
| delete_plan: "reachable s \<Longrightarrow> reachable (handleDeletePlan ident confirmed s)"
| toggle_task: "reachable s \<Longrightarrow> reachable (handleToggleTask dn tid s)"
| update_notes: "reachable s \<Longrightarrow> reachable (handleUpdateNotes dn txt s)"
| toggle_session: "reachable s \<Longrightarrow> reachable (handleSessionToggle now dn s)"
| update_plan:
    "reachable s \<Longrightarrow> reachable s0 \<Longrightarrow> p \<in> set (plans s0) \<Longrightarrow>
     updatePlanWithChat parse clock updatedAt p response = Inr p' \<Longrightarrow>
     reachable (handleUpdatePlan p' s)"

section \<open>The tasks of a state\<close>

text \<open>
  Every task of the state with the plan id and the day number it sits under, in the order
  of the collection; \<open>matchesTask\<close> is the condition under which \<open>handleToggleTask\<close>
  reaches a task.
\<close>

definition dayTasks :: "string \<Rightarrow> DayPlan \<Rightarrow> (string \<times> int \<times> Task) list" where
  "dayTasks pid day = map (\<lambda>task. (pid, dayNumber day, task)) (tasks day)"

definition planTasks :: "LearningPlan \<Rightarrow> (string \<times> int \<times> Task) list" where
  "planTasks plan = concat (map (dayTasks (planId plan)) (days plan))"

definition allTasks :: "AppState \<Rightarrow> (string \<times> int \<times> Task) list" where
  "allTasks s = concat (map planTasks (plans s))"

definition matchesTask :: "AppState \<Rightarrow> int \<Rightarrow> string \<Rightarrow> string \<times> int \<times> Task \<Rightarrow> bool" where
  "matchesTask s dn tid e =
     (case e of (pid, d, task) \<Rightarrow>
        truthy (activePlanId s) \<and> Some pid = activePlanId s \<and> d = dn \<and> taskId task = tid)"

definition flipTask :: "string \<times> int \<times> Task \<Rightarrow> string \<times> int \<times> Task" where
  "flipTask e = (case e of (pid, d, task) \<Rightarrow> (pid, d, task\<lparr>isCompleted := \<not> isCompleted task\<rparr>))"

text \<open>The session sequence of the day at position \<open>j\<close> of the plan at position \<open>i\<close>.\<close>

definition sessionsAt :: "AppState \<Rightarrow> nat \<Rightarrow> nat \<Rightarrow> Session list" where
  "sessionsAt s i j = (case sessions (days (plans s ! i) ! j) of None \<Rightarrow> [] | Some ss \<Rightarrow> ss)"

section \<open>Reading a parsed value through the declared types\<close>

text \<open>
  The program reads the parsed value through its interfaces without checking it. The
  view below does the same for a value of the shape the prompt asks for; a field of
  another kind than the interface declares is read as empty or zero, and a number that is
  not an integer as its integer part. Of a key that an object repeats the last member
  counts. It gives the concrete parser \<open>parsePlan\<close>, used to evaluate the service on
  explicit answers.
\<close>

definition field :: "string \<Rightarrow> json \<Rightarrow> json option" where
  "field k j = (case j of JObject ms \<Rightarrow> map_of (rev ms) k | _ \<Rightarrow> None)"

definition readNat :: "string \<Rightarrow> nat" where
  "readNat ds = foldl (\<lambda>n c. 10 * n + (of_char c - 48)) 0 ds"

text \<open>
  The value of a number lexeme: the digits of its integer and fraction parts, shifted by
  its exponent less the length of the fraction, with its sign.
\<close>

definition numberValue :: "string \<Rightarrow> int" where
  "numberValue lexeme =
     (let negative = (take 1 lexeme = ''-'');
          body = (if negative then tl lexeme else lexeme);
          ip = takeWhile isDigit body;
          r1 = dropWhile isDigit body;
          fp = (if take 1 r1 = ''.'' then takeWhile isDigit (tl r1) else []);
          r2 = (if take 1 r1 = ''.'' then dropWhile isDigit (tl r1) else r1);
          ex = (if r2 = [] then 0
                else if take 1 (tl r2) = ''-'' then - int (readNat (tl (tl r2)))
                else if take 1 (tl r2) = ''+'' then int (readNat (tl (tl r2)))
                else int (readNat (tl r2)));
          m = int (readNat (ip @ fp));
          shift = ex - int (length fp);
          v = (if 0 \<le> shift then m * 10 ^ nat shift else m div 10 ^ nat (- shift))
      in if negative then - v else v)"

definition jsonInt :: "json option \<Rightarrow> int" where
  "jsonInt j = (case j of Some (JNumber lexeme) \<Rightarrow> numberValue lexeme | _ \<Rightarrow> 0)"

definition jsonString :: "json option \<Rightarrow> string" where
  "jsonString j = (case j of Some (JString str) \<Rightarrow> str | _ \<Rightarrow> [])"

definition decodeResource :: "json \<Rightarrow> Resource" where
  "decodeResource j =
     \<lparr>resourceTitle = jsonString (field ''title'' j),
      url = jsonString (field ''url'' j),
      resourceType =
        (let ty = jsonString (field ''type'' j) in
         if ty = ''video'' then video
         else if ty = ''blog'' then blog
         else if ty = ''documentation'' then documentation
         else other)\<rparr>"

definition decodeTask :: "json \<Rightarrow> RawTask" where
  "decodeTask j =
     (case j of
        JString str \<Rightarrow> TaskString str
      | _ \<Rightarrow>
          TaskObject (jsonString (field ''text'' j))
            (case field ''resources'' j of
               Some (JArray rs) \<Rightarrow> Some (map decodeResource rs)
             | _ \<Rightarrow> None))"

definition decodeDay :: "json \<Rightarrow> RawDay" where
  "decodeDay j =
     \<lparr>rawDayNumber = jsonInt (field ''dayNumber'' j),
      rawTitle = jsonString (field ''title'' j),
      rawDescription = jsonString (field ''description'' j),
      rawTasks = (case field ''tasks'' j of
                    Some (JArray ts) \<Rightarrow>
                      if JNull \<in> set ts then None else Some (map decodeTask ts)
                  | _ \<Rightarrow> None)\<rparr>"

definition decodePlan :: "json \<Rightarrow> RawPlan" where
  "decodePlan j =
     \<lparr>rawTopic = jsonString (field ''topic'' j),
      rawDurationDays = jsonInt (field ''durationDays'' j),
      rawDailyTime = jsonString (field ''dailyTime'' j),
      rawDays = (case field ''days'' j of
                   Some (JArray ds) \<Rightarrow>
                     if JNull \<in> set ds then None else Some (map decodeDay ds)
                 | _ \<Rightarrow> None)\<rparr>"

definition parsePlan :: "string \<Rightarrow> RawPlan option" where
  "parsePlan str = map_option decodePlan (JSON_parse str)"

section \<open>Example data\<close>

text \<open>
  A three-day plan started on 15 January 2024 at 10:30 local time, with one task on each
  of its first two days; the state in which it is the stored collection.
\<close>

definition exampleTask :: "int \<Rightarrow> Task" where
  "exampleTask n =
     \<lparr>taskId = generatedTaskId n 0, taskText = ''Read the chapter'', isCompleted = False,
      resources = Some []\<rparr>"

definition exampleDay :: "int \<Rightarrow> DayPlan" where
  "exampleDay n =
     \<lparr>dayNumber = n, title = ''Basics'', description = ''Step by step'',
      tasks = (if n < 3 then [exampleTask n] else []), dayNotes = None, sessions = None\<rparr>"

definition examplePlan :: LearningPlan where
  "examplePlan =
     \<lparr>planId = ''plan-1'', topic = ''Isabelle'', durationDays = 3, dailyTime = ''30 mins'',
      startDate = dateOf 2024 0 15 + 37800000, lastUpdated = dateOf 2024 0 15 + 37800000,
      days = [exampleDay 1, exampleDay 2, exampleDay 3]\<rparr>"

text \<open>An answer of the model from which \<open>generateLearningPlan\<close> builds the days of that plan.\<close>

definition generationAnswer :: string where
  \<open>generationAnswer =
     ''{"topic": "Isabelle", "durationDays": 3, "dailyTime": "30 mins", "days": [{"dayNumber": 1, "title": "Basics", "description": "Step by step", "tasks": ["Read the chapter"]}, {"dayNumber": 2, "title": "Basics", "description": "Step by step", "tasks": ["Read the chapter"]}, {"dayNumber": 3, "title": "Basics", "description": "Step by step", "tasks": []}]}''\<close>

definition examplePlanData :: PlanData where
  "examplePlanData =
     \<lparr>dataTopic = ''Isabelle'', dataDurationDays = 3, dataDailyTime = ''30 mins'',
      dataDays = [exampleDay 1, exampleDay 2, exampleDay 3]\<rparr>"

definition exampleState :: AppState where
  "exampleState = loadEffect (Stored [examplePlan]) initialState"

text \<open>
  The example state after the first task was completed, a note was written and a session
  was started on day 1; its plan; and an answer of the model to a refinement request.
\<close>

definition busyState :: AppState where
  "busyState =
     handleSessionToggle 1000 1
       (handleUpdateNotes 1 ''Remember the exercises''
          (handleToggleTask 1 (generatedTaskId 1 0) exampleState))"

definition busyPlan :: LearningPlan where
  "busyPlan = hd (plans busyState)"

definition refinementAnswer :: string where
  \<open>refinementAnswer =
     ''Here is the shorter plan: ```json {"days": [{"dayNumber": 1, "title": "All in one", "description": "Do it", "tasks": ["Read", {"text": "Watch"}]}]} ```''\<close>

definition refinedPlan :: LearningPlan where
  "refinedPlan =
     busyPlan\<lparr>days :=
                [\<lparr>dayNumber = 1, title = ''All in one'', description = ''Do it'',
                  tasks = [\<lparr>taskId = ''task-1-0-1700'', taskText = ''Read'',
                            isCompleted = False, resources = Some []\<rparr>,
                           \<lparr>taskId = ''task-1-1-1701'', taskText = ''Watch'',
                            isCompleted = False, resources = Some []\<rparr>],
                  dayNotes = None, sessions = None\<rparr>],
              durationDays := 1,
              lastUpdated := 1800\<rparr>"

section \<open>Properties of the response repair routine\<close>

text \<open>
  The capture group lies between two fences: after the first fence come the optional tag
  and white space, after the group white space and the second fence.
\<close>

lemma splitFence_Some:
  assumes "splitFence s = Some (a, b)"
  shows "s = a @ ''```'' @ b"
  using assms
proof (induction s arbitrary: a)
  case Nil
  then show ?case by simp
next
  case (Cons c cs)
  show ?case
  proof (cases "take 3 (c # cs) = ''```''")
    case True
    with Cons.prems have a: "a = []" and b: "b = drop 3 (c # cs)"
      by simp_all
    have "c # cs = take 3 (c # cs) @ drop 3 (c # cs)"
      by (rule append_take_drop_id [symmetric])
    with True a b show ?thesis
      by simp
  next
    case False
    with Cons.prems obtain a' where r: "splitFence cs = Some (a', b)" and a: "a = c # a'"
      by auto
    from Cons.IH [OF r] a show ?thesis
      by simp
  qed
qed

lemma trimEnd_split: "\<exists>ws. body = trimEnd body @ ws \<and> list_all isSpace ws"
proof -
  have "rev body = takeWhile isSpace (rev body) @ dropWhile isSpace (rev body)"
    by simp
  then have "body = rev (dropWhile isSpace (rev body)) @ rev (takeWhile isSpace (rev body))"
    by (metis rev_append rev_rev_ident)
  moreover have "list_all isSpace (rev (takeWhile isSpace (rev body)))"
    by (simp add: list_all_iff) (metis set_takeWhileD)
  ultimately show ?thesis
    unfolding trimEnd_def by blast
qed

lemma codeBlockMatch_shape:
  assumes "codeBlockMatch text = Some g"
  shows "\<exists>before tag ws1 ws2 rest.
           text = before @ ''```'' @ tag @ ws1 @ g @ ws2 @ ''```'' @ rest
           \<and> (tag = [] \<or> tag = ''json'') \<and> list_all isSpace ws1 \<and> list_all isSpace ws2"
proof -
  from assms obtain before r where f1: "splitFence text = Some (before, r)"
    by (auto simp: codeBlockMatch_def split: option.splits)
  define r1 where "r1 = (if take 4 r = ''json'' then drop 4 r else r)"
  define tag where "tag = (if take 4 r = ''json'' then ''json'' else [])"
  define r2 where "r2 = dropWhile isSpace r1"
  define ws1 where "ws1 = takeWhile isSpace r1"
  from assms f1 obtain body rest where f2: "splitFence r2 = Some (body, rest)" and g: "g = trimEnd body"
    by (auto simp: codeBlockMatch_def Let_def r1_def r2_def split: option.splits)
  obtain ws2 where b: "body = trimEnd body @ ws2" and w2: "list_all isSpace ws2"
    using trimEnd_split by blast
  have t: "text = before @ ''```'' @ r"
    using f1 by (rule splitFence_Some)
  have r: "r = tag @ r1"
  proof (cases "take 4 r = ''json''")
    case True
    then have "tag = take 4 r" and "r1 = drop 4 r"
      by (simp_all add: tag_def r1_def)
    then show ?thesis
      by (simp only: append_take_drop_id)
  next
    case False
    then show ?thesis
      by (simp add: tag_def r1_def)
  qed
  have r1: "r1 = ws1 @ r2"
    by (simp add: ws1_def r2_def)
  have r2: "r2 = body @ ''```'' @ rest"
    using f2 by (rule splitFence_Some)
  have w1: "list_all isSpace ws1"
    unfolding ws1_def by (simp add: list_all_iff) (metis set_takeWhileD)
  have "text = before @ ''```'' @ tag @ ws1 @ g @ ws2 @ ''```'' @ rest"
    using t r r1 r2 b g by (metis append.assoc)
  moreover have "tag = [] \<or> tag = ''json''"
    by (simp add: tag_def)
  ultimately show ?thesis
    using w1 w2 by blast
qed

text \<open>
  The control flow of the routine against the cascade of the three strategies. The two
  agree on every text except those where a fenced block exists, its content fails to
  parse and the raw text would parse: there the failed parse of the fenced content leaves
  the \<open>try\<close> block, the raw text is passed over, and the result is the outcome of the
  brace strategy alone.
\<close>

lemma extractJson_control_flow:
  "extractJson parse text =
     (case firstSuccess [if codeBlockMatch text = None then rawTextStrategy parse text
                         else fencedBlockStrategy parse text,
                         braceSubstringStrategy parse text] of
        Some v \<Rightarrow> Inr v
      | None \<Rightarrow> Inl invalidFormat)
   \<and> (codeBlockMatch text = None \<or> fencedBlockStrategy parse text \<noteq> None
      \<or> rawTextStrategy parse text = None
      \<longrightarrow> extractJson parse text = repairCascade parse text)
   \<and> (codeBlockMatch text \<noteq> None \<and> fencedBlockStrategy parse text = None
      \<longrightarrow> extractJson parse text =
          (case braceSubstringStrategy parse text of
             Some v \<Rightarrow> Inr v
           | None \<Rightarrow> Inl invalidFormat))"
  by (auto simp: extractJson_def repairCascade_def fencedBlockStrategy_def rawTextStrategy_def
      braceSubstringStrategy_def Let_def split: option.splits)

lemma extractJson_control_flow_examples:
  \<open>(fencedBlockStrategy JSON_parse ''Here: ```json {"a": 1} ``` done'' \<noteq> None
     \<and> extractJson JSON_parse ''Here: ```json {"a": 1} ``` done''
         = repairCascade JSON_parse ''Here: ```json {"a": 1} ``` done'')
   \<and> (codeBlockMatch ''{"a": "```x```"}'' \<noteq> None
     \<and> fencedBlockStrategy JSON_parse ''{"a": "```x```"}'' = None
     \<and> extractJson JSON_parse ''{"a": "```x```"}''
         = (case braceSubstringStrategy JSON_parse ''{"a": "```x```"}'' of
              Some v \<Rightarrow> Inr v
            | None \<Rightarrow> Inl invalidFormat))\<close>
proof (intro conjI)
  show h1: \<open>fencedBlockStrategy JSON_parse ''Here: ```json {"a": 1} ``` done'' \<noteq> None\<close>
    by code_simp
  from h1 extractJson_control_flow [of JSON_parse \<open>''Here: ```json {"a": 1} ``` done''\<close>]
  show \<open>extractJson JSON_parse ''Here: ```json {"a": 1} ``` done''
         = repairCascade JSON_parse ''Here: ```json {"a": 1} ``` done''\<close>
    by blast
  show h2: \<open>codeBlockMatch ''{"a": "```x```"}'' \<noteq> None\<close>
    by code_simp
  show h3: \<open>fencedBlockStrategy JSON_parse ''{"a": "```x```"}'' = None\<close>
    by code_simp
  from h2 h3 extractJson_control_flow [of JSON_parse \<open>''{"a": "```x```"}''\<close>]
  show \<open>extractJson JSON_parse ''{"a": "```x```"}''
         = (case braceSubstringStrategy JSON_parse ''{"a": "```x```"}'' of
              Some v \<Rightarrow> Inr v
            | None \<Rightarrow> Inl invalidFormat)\<close>
    by blast
qed

text \<open>
  C1 (the code departs from the claim). The claim has the raw text tried whenever there is
  no fenced block or the parse of its content fails. On a JSON array that holds a fence
  pair inside a string the fenced content \<open>x\<close> does not parse and the raw text does: the
  cascade returns the array, and the routine throws without trying the raw text. On a
  quiz answer of one question that quotes code between fences the raw text is the array
  of the question, and the routine returns the question object that the brace strategy
  finds.
\<close>

theorem extractJson_skips_raw_text:
  \<open>fencedBlockStrategy JSON_parse ''["```x```"]'' = None
   \<and> rawTextStrategy JSON_parse ''["```x```"]'' = Some (JArray [JString ''```x```''])
   \<and> repairCascade JSON_parse ''["```x```"]'' = Inr (JArray [JString ''```x```''])
   \<and> extractJson JSON_parse ''["```x```"]'' = Inl invalidFormat
   \<and> fencedBlockStrategy JSON_parse
        ''[{"question":"What does ```js 1+1``` print?","correctAnswerIndex":0}]'' = None
   \<and> repairCascade JSON_parse
        ''[{"question":"What does ```js 1+1``` print?","correctAnswerIndex":0}]''
       = Inr (JArray [JObject [(''question'', JString ''What does ```js 1+1``` print?''),
                               (''correctAnswerIndex'', JNumber ''0'')]])
   \<and> extractJson JSON_parse
        ''[{"question":"What does ```js 1+1``` print?","correctAnswerIndex":0}]''
       = Inr (JObject [(''question'', JString ''What does ```js 1+1``` print?''),
                       (''correctAnswerIndex'', JNumber ''0'')])\<close>
  by code_simp

text \<open>
  The outcomes of the routine. When all three strategies fail it fails, and every failure
  carries the invalid-format message. It returns the value of the fenced content when
  that parses, the value of the raw text when there is no fenced block, and some value
  when the text between the braces parses; these are all its successes.
\<close>

lemma extractJson_success_cases:
  "(fencedBlockStrategy parse text = None \<and> rawTextStrategy parse text = None
      \<and> braceSubstringStrategy parse text = None
      \<longrightarrow> extractJson parse text = Inl invalidFormat)
   \<and> (\<forall>e. extractJson parse text = Inl e \<longrightarrow> e = invalidFormat)
   \<and> (\<forall>v. fencedBlockStrategy parse text = Some v \<longrightarrow> extractJson parse text = Inr v)
   \<and> (\<forall>v. codeBlockMatch text = None \<and> rawTextStrategy parse text = Some v
          \<longrightarrow> extractJson parse text = Inr v)
   \<and> (braceSubstringStrategy parse text \<noteq> None \<longrightarrow> (\<exists>v. extractJson parse text = Inr v))
   \<and> ((\<exists>v. extractJson parse text = Inr v) \<longleftrightarrow>
        fencedBlockStrategy parse text \<noteq> None
        \<or> (codeBlockMatch text = None \<and> rawTextStrategy parse text \<noteq> None)
        \<or> braceSubstringStrategy parse text \<noteq> None)"
  by (auto simp: extractJson_def fencedBlockStrategy_def rawTextStrategy_def
      braceSubstringStrategy_def Let_def split: option.splits)

lemma extractJson_success_cases_examples:
  \<open>(fencedBlockStrategy JSON_parse ''Sorry, no plan today.'' = None
     \<and> rawTextStrategy JSON_parse ''Sorry, no plan today.'' = None
     \<and> braceSubstringStrategy JSON_parse ''Sorry, no plan today.'' = None
     \<and> extractJson JSON_parse ''Sorry, no plan today.'' = Inl invalidFormat)
   \<and> (fencedBlockStrategy JSON_parse ''```json {"days": []} ```'' = Some (JObject [(''days'', JArray [])])
     \<and> extractJson JSON_parse ''```json {"days": []} ```'' = Inr (JObject [(''days'', JArray [])]))
   \<and> (codeBlockMatch ''[1, 2]'' = None
     \<and> rawTextStrategy JSON_parse ''[1, 2]'' = Some (JArray [JNumber ''1'', JNumber ''2''])
     \<and> extractJson JSON_parse ''[1, 2]'' = Inr (JArray [JNumber ''1'', JNumber ''2'']))
   \<and> (braceSubstringStrategy JSON_parse ''Sure! {"days": []} Enjoy.'' \<noteq> None
     \<and> (\<exists>v. extractJson JSON_parse ''Sure! {"days": []} Enjoy.'' = Inr v))\<close>
proof (intro conjI)
  show a1: \<open>fencedBlockStrategy JSON_parse ''Sorry, no plan today.'' = None\<close>
    by code_simp
  show a2: \<open>rawTextStrategy JSON_parse ''Sorry, no plan today.'' = None\<close>
    by code_simp
  show a3: \<open>braceSubstringStrategy JSON_parse ''Sorry, no plan today.'' = None\<close>
    by code_simp
  from a1 a2 a3 extractJson_success_cases [of JSON_parse \<open>''Sorry, no plan today.''\<close>]
  show \<open>extractJson JSON_parse ''Sorry, no plan today.'' = Inl invalidFormat\<close>
    by blast
  show b1: \<open>fencedBlockStrategy JSON_parse ''```json {"days": []} ```''
              = Some (JObject [(''days'', JArray [])])\<close>
    by code_simp
  from b1 extractJson_success_cases [of JSON_parse \<open>''```json {"days": []} ```''\<close>]
  show \<open>extractJson JSON_parse ''```json {"days": []} ```'' = Inr (JObject [(''days'', JArray [])])\<close>
    by blast
  show c1: \<open>codeBlockMatch ''[1, 2]'' = None\<close>
    by code_simp
  show c2: \<open>rawTextStrategy JSON_parse ''[1, 2]'' = Some (JArray [JNumber ''1'', JNumber ''2''])\<close>
    by code_simp
  from c1 c2 extractJson_success_cases [of JSON_parse \<open>''[1, 2]''\<close>]
  show \<open>extractJson JSON_parse ''[1, 2]'' = Inr (JArray [JNumber ''1'', JNumber ''2''])\<close>
    by blast
  show d1: \<open>braceSubstringStrategy JSON_parse ''Sure! {"days": []} Enjoy.'' \<noteq> None\<close>
    by code_simp
  from d1 extractJson_success_cases [of JSON_parse \<open>''Sure! {"days": []} Enjoy.''\<close>]
  show \<open>\<exists>v. extractJson JSON_parse ''Sure! {"days": []} Enjoy.'' = Inr v\<close>
    by blast
qed

text \<open>
  C3 (the code departs from the claim). The claim has the routine succeed whenever one of
  the strategies yields valid JSON. A quiz answer that is a JSON array of two questions,
  one of which quotes code between fences, is valid JSON as it stands: the raw-text
  strategy parses it, and the routine fails with the invalid-format error, because the
  fenced content and the text between the braces do not parse and the raw text is never
  tried.
\<close>

theorem extractJson_rejects_valid_json:
  \<open>rawTextStrategy JSON_parse
      ''[{"question":"What does ```js 1+1``` print?","correctAnswerIndex":0},{"question":"Q2","correctAnswerIndex":1}]''
     \<noteq> None
   \<and> extractJson JSON_parse
      ''[{"question":"What does ```js 1+1``` print?","correctAnswerIndex":0},{"question":"Q2","correctAnswerIndex":1}]''
     = Inl invalidFormat\<close>
  by code_simp

section \<open>Properties of the date functions\<close>

text \<open>\<open>YearFromTime t\<close> is the year in which \<open>t\<close> lies.\<close>

lemma yearDown_le: "DayFromYear (yearDown d y) \<le> d"
proof (induction d y rule: yearDown.induct)
  case (1 d y)
  then show ?case
    by (cases "DayFromYear y \<le> d") (simp_all add: yearDown.simps [of d y])
qed

lemma YearFromTime_starts_before: "DayFromYear (YearFromTime t) \<le> Day t"
  by (simp add: YearFromTime_def yearDown_le)

lemma yearDown_upper:
  assumes "d < DayFromYear (y + 1)"
  shows "d < DayFromYear (yearDown d y + 1)"
  using assms
proof (induction d y rule: yearDown.induct)
  case (1 d y)
  show ?case
  proof (cases "DayFromYear y \<le> d")
    case True
    with "1.prems" show ?thesis
      by (simp add: yearDown.simps [of d y])
  next
    case False
    with "1.IH" have "d < DayFromYear (yearDown d (y - 1) + 1)"
      by simp
    with False show ?thesis
      by (simp add: yearDown.simps [of d y])
  qed
qed

lemma leap_days_nonneg:
  fixes y :: int
  assumes "1970 \<le> y"
  shows "0 \<le> (y - 1969) div 4 - (y - 1901) div 100 + (y - 1601) div 400"
proof -
  define u where "u = y - 1969"
  have u: "1 \<le> u"
    using assms by (simp add: u_def)
  have q: "(u + 68) div 100 \<le> u div 4"
  proof (cases "3 \<le> u")
    case True
    then have "(u + 68) div 100 \<le> (25 * u) div 100"
      by (intro zdiv_mono1) simp_all
    also have "(25 * u) div 100 = u div 4"
      by simp
    finally show ?thesis .
  next
    case False
    with u have "u = 1 \<or> u = 2"
      by auto
    then show ?thesis
      by auto
  qed
  have "0 \<le> (y - 1601) div 400"
    using assms by (simp add: pos_imp_zdiv_nonneg_iff)
  moreover have "y - 1901 = u + 68" and "y - 1969 = u"
    by (simp_all add: u_def)
  ultimately show ?thesis
    using q by simp
qed

lemma YearFromTime_ends_after: "Day t < DayFromYear (YearFromTime t + 1)"
proof -
  define k where "k = max 0 (Day t div 365)"
  have k: "0 \<le> k" "Day t div 365 \<le> k"
    by (simp_all add: k_def)
  have "Day t mod 365 < 365"
    by simp
  moreover have "365 * (Day t div 365) + Day t mod 365 = Day t"
    by simp
  ultimately have "Day t < 365 * (Day t div 365) + 365"
    by linarith
  then have "Day t < 365 * (Day t div 365 + 1)"
    by simp
  also have "\<dots> \<le> 365 * (k + 1)"
    using k by simp
  also have "\<dots> \<le> DayFromYear (1970 + k + 1)"
  proof -
    define y where "y = 1970 + k + 1"
    define l where "l = (y - 1969) div 4 - (y - 1901) div 100 + (y - 1601) div 400"
    have "1970 \<le> y"
      using k by (simp add: y_def)
    then have "0 \<le> l"
      unfolding l_def by (rule leap_days_nonneg)
    moreover have "DayFromYear y = 365 * (y - 1970) + l"
      by (simp add: DayFromYear_def l_def)
    moreover have "y - 1970 = k + 1"
      by (simp add: y_def)
    ultimately show ?thesis
      unfolding y_def [symmetric] by simp
  qed
  finally have "Day t < DayFromYear (1970 + k + 1)" .
  then show ?thesis
    unfolding YearFromTime_def k_def [symmetric] by (rule yearDown_upper)
qed

lemma MonthFromTime_range: "0 \<le> MonthFromTime t \<and> MonthFromTime t \<le> 11"
  by (simp add: MonthFromTime_def Let_def)

lemma Day_decomposition:
  "Day t = DayFromYear (YearFromTime t) + daysBeforeMonth (MonthFromTime t) (InLeapYear t)
           + DateFromTime t - 1"
  by (simp add: DateFromTime_def DayWithinYear_def)

lemma MakeDay_of_fields:
  "MakeDay (YearFromTime t) (MonthFromTime t) n = Day t - DateFromTime t + n"
proof -
  have m: "MonthFromTime t div 12 = 0" "MonthFromTime t mod 12 = MonthFromTime t"
    using MonthFromTime_range [of t] by simp_all
  show ?thesis
    by (simp add: MakeDay_def m Let_def DateFromTime_def DayWithinYear_def InLeapYear_def)
qed

lemma time_split: "Day t * msPerDay + TimeWithinDay t = t"
  by (simp add: Day_def TimeWithinDay_def)

lemma setDate_shift: "setDate t (getDate t + k) = t + k * msPerDay"
proof -
  have "setDate t (getDate t + k) = (Day t + k) * msPerDay + TimeWithinDay t"
    by (simp add: setDate_def getDate_def MakeDay_of_fields MakeDate_def)
  also have "\<dots> = (Day t * msPerDay + TimeWithinDay t) + k * msPerDay"
    by (simp add: algebra_simps)
  finally show ?thesis
    by (simp add: time_split)
qed

lemma getDayDate_shift: "getDayDate s n = s + (n - 1) * msPerDay"
  by (simp add: getDayDate_def setDate_shift)

lemma Day_shift: "Day (t + k * msPerDay) = Day t + k"
  by (simp add: Day_def msPerDay_def)

lemma setHours0_eq: "setHours0 t = Day t * msPerDay"
  by (simp add: setHours0_def MakeDate_def)

lemma Day_setHours0: "Day (setHours0 t) = Day t"
  by (simp add: setHours0_eq Day_def msPerDay_def)

lemma TimeWithinDay_setHours0: "TimeWithinDay (setHours0 t) = 0"
  by (simp add: setHours0_eq TimeWithinDay_def)

lemma isSameDay_iff: "isSameDay a b \<longleftrightarrow> Day a = Day b"
proof
  assume same: "isSameDay a b"
  then have y: "YearFromTime a = YearFromTime b" and m: "MonthFromTime a = MonthFromTime b"
    and d: "DateFromTime a = DateFromTime b"
    by (simp_all add: isSameDay_def getFullYear_def getMonth_def getDate_def)
  from y have l: "InLeapYear a = InLeapYear b"
    by (simp add: InLeapYear_def)
  show "Day a = Day b"
    using Day_decomposition [of a] Day_decomposition [of b] y m d l by simp
next
  assume eq: "Day a = Day b"
  then have y: "YearFromTime a = YearFromTime b"
    by (simp add: YearFromTime_def)
  with eq have w: "DayWithinYear a = DayWithinYear b" and l: "InLeapYear a = InLeapYear b"
    by (simp_all add: DayWithinYear_def InLeapYear_def)
  then have m: "MonthFromTime a = MonthFromTime b"
    by (simp add: MonthFromTime_def)
  with w l have "DateFromTime a = DateFromTime b"
    by (simp add: DateFromTime_def)
  with y m show "isSameDay a b"
    by (simp add: isSameDay_def getFullYear_def getMonth_def getDate_def)
qed

section \<open>Properties of the calendar and of the automatic selection\<close>

text \<open>
  C5. The date of day \<open>n\<close> is a function of the plan's start date: the start date, set
  to local midnight, plus \<open>n - 1\<close> days. It falls on the calendar day \<open>n - 1\<close> days after
  the start day, at midnight; day 1 is the start date itself; and with the start date
  30 January 2023, day 5 is 3 February 2023.
\<close>

theorem getDayDate_start_plus_offset:
  "getDayDate (calendarStartDate plan) n = calendarStartDate plan + (n - 1) * msPerDay
   \<and> Day (getDayDate (calendarStartDate plan) n) = Day (startDate plan) + (n - 1)
   \<and> TimeWithinDay (getDayDate (calendarStartDate plan) n) = 0
   \<and> getDayDate (calendarStartDate plan) 1 = calendarStartDate plan
   \<and> isSameDay (getDayDate (calendarStartDate plan) 1) (startDate plan)
   \<and> getFullYear (getDayDate (dateOf 2023 0 30) 5) = 2023
   \<and> getMonth (getDayDate (dateOf 2023 0 30) 5) = 1
   \<and> getDate (getDayDate (dateOf 2023 0 30) 5) = 3"
proof (intro conjI)
  show shift: "getDayDate (calendarStartDate plan) n = calendarStartDate plan + (n - 1) * msPerDay"
    by (rule getDayDate_shift)
  show "Day (getDayDate (calendarStartDate plan) n) = Day (startDate plan) + (n - 1)"
    unfolding shift by (simp add: Day_shift calendarStartDate_def Day_setHours0)
  have "TimeWithinDay (calendarStartDate plan + (n - 1) * msPerDay) = TimeWithinDay (calendarStartDate plan)"
    by (simp add: TimeWithinDay_def)
  then show "TimeWithinDay (getDayDate (calendarStartDate plan) n) = 0"
    unfolding shift by (simp add: calendarStartDate_def TimeWithinDay_setHours0)
  show one: "getDayDate (calendarStartDate plan) 1 = calendarStartDate plan"
    by (simp add: getDayDate_shift)
  show "isSameDay (getDayDate (calendarStartDate plan) 1) (startDate plan)"
    unfolding one by (simp add: isSameDay_iff calendarStartDate_def Day_setHours0)
  show "getFullYear (getDayDate (dateOf 2023 0 30) 5) = 2023"
    by code_simp
  show "getMonth (getDayDate (dateOf 2023 0 30) 5) = 1"
    by code_simp
  show "getDate (getDayDate (dateOf 2023 0 30) 5) = 3"
    by code_simp
qed

lemma styles_distinct: "distinct [completedStyle, missedStyle, todayStyle, defaultStyle]"
  by (simp add: completedStyle_def missedStyle_def todayStyle_def defaultStyle_def)

lemma getStatusColor_cases:
  "getStatusColor today day date sel =
     (if tasks day \<noteq> [] \<and> list_all isCompleted (tasks day) then completedStyle
      else if date < today then missedStyle
      else if isSameDay date today then todayStyle
      else defaultStyle)"
  by (simp add: getStatusColor_def Let_def)

lemma dayCellStatus_cases:
  "dayCellStatus now plan selected day =
     (if tasks day \<noteq> [] \<and> list_all isCompleted (tasks day) then completedStyle
      else if Day (startDate plan) + (dayNumber day - 1) < Day now then missedStyle
      else if Day (startDate plan) + (dayNumber day - 1) = Day now then todayStyle
      else defaultStyle)"
proof -
  define x where "x = Day (startDate plan) + (dayNumber day - 1)"
  let ?date = "getDayDate (calendarStartDate plan) (dayNumber day)"
  have d: "?date = x * msPerDay"
    by (simp add: x_def getDayDate_shift calendarStartDate_def setHours0_eq algebra_simps)
  have t: "calendarToday now = Day now * msPerDay"
    by (simp add: calendarToday_def setHours0_eq)
  have less: "?date < calendarToday now \<longleftrightarrow> x < Day now"
    unfolding d t by (simp add: msPerDay_def)
  have "Day (x * msPerDay) = x"
    by (simp add: Day_def msPerDay_def)
  moreover have "Day (calendarToday now) = Day now"
    by (simp add: calendarToday_def Day_setHours0)
  ultimately have same: "isSameDay ?date (calendarToday now) \<longleftrightarrow> x = Day now"
    unfolding d by (simp add: isSameDay_iff)
  show ?thesis
    unfolding dayCellStatus_def Let_def getStatusColor_cases less same x_def by simp
qed

lemma empty_day_not_completed:
  assumes "tasks day = []"
  shows "getStatusColor today day date sel \<noteq> completedStyle"
    and "dayCellStatus now plan selected day \<noteq> completedStyle"
  using assms
  by (simp_all add: getStatusColor_cases dayCellStatus_cases
      completedStyle_def missedStyle_def todayStyle_def defaultStyle_def)

text \<open>
  C4. The status of a day follows the precedence: at least one task and all tasks
  completed gives the completed class; otherwise a date before today gives the missed
  class; otherwise today's date gives the today class; otherwise the default class. For a
  cell of the calendar the date is the start day plus \<open>dayNumber - 1\<close> days and the
  comparison is one of calendar days. A day with no task never has the completed class,
  and the four classes are different strings.
\<close>

theorem getStatusColor_precedence:
  "getStatusColor today day date sel =
     (if tasks day \<noteq> [] \<and> list_all isCompleted (tasks day) then completedStyle
      else if date < today then missedStyle
      else if isSameDay date today then todayStyle
      else defaultStyle)
   \<and> dayCellStatus now plan selected day =
     (if tasks day \<noteq> [] \<and> list_all isCompleted (tasks day) then completedStyle
      else if Day (startDate plan) + (dayNumber day - 1) < Day now then missedStyle
      else if Day (startDate plan) + (dayNumber day - 1) = Day now then todayStyle
      else defaultStyle)
   \<and> (tasks day = [] \<longrightarrow>
        getStatusColor today day date sel \<noteq> completedStyle
        \<and> dayCellStatus now plan selected day \<noteq> completedStyle)
   \<and> distinct [completedStyle, missedStyle, todayStyle, defaultStyle]"
  using getStatusColor_cases [of today day date sel] dayCellStatus_cases [of now plan selected day]
    empty_day_not_completed styles_distinct
  by blast

theorem getStatusColor_precedence_witness:
  "tasks (exampleDay 3) = []
   \<and> dayCellStatus (dateOf 2024 0 20) examplePlan None (exampleDay 3) \<noteq> completedStyle
   \<and> dayCellStatus (dateOf 2024 0 20) examplePlan None (exampleDay 3) = missedStyle
   \<and> dayCellStatus (dateOf 2024 0 17 + 5000) examplePlan None (exampleDay 3) = todayStyle"
proof (intro conjI)
  show h: "tasks (exampleDay 3) = []"
    by (simp add: exampleDay_def)
  from h getStatusColor_precedence [of 0 "exampleDay 3" 0 False "dateOf 2024 0 20" examplePlan None]
  show "dayCellStatus (dateOf 2024 0 20) examplePlan None (exampleDay 3) \<noteq> completedStyle"
    by blast
  show "dayCellStatus (dateOf 2024 0 20) examplePlan None (exampleDay 3) = missedStyle"
    by code_simp
  show "dayCellStatus (dateOf 2024 0 17 + 5000) examplePlan None (exampleDay 3) = todayStyle"
    by code_simp
qed

lemma ceilDiv_days:
  assumes "0 \<le> r" and "r < msPerDay"
  shows "ceilDiv (k * msPerDay - r) (1000 * 60 * 60 * 24) = k"
proof -
  have m: "(1000 * 60 * 60 * 24 :: int) = msPerDay"
    by (simp add: msPerDay_def)
  have "(r - k * msPerDay) div msPerDay = r div msPerDay - k"
    by (simp add: msPerDay_def)
  moreover have "r div msPerDay = 0"
    using assms by simp
  ultimately show ?thesis
    unfolding ceilDiv_def m by simp
qed

lemma autoSelectTarget_later_day:
  assumes "Day now = Day (startDate plan) + k" and "1 \<le> k" and "k < int (length (days plan))"
  shows "autoSelectTarget now plan = find (\<lambda>d. dayNumber d = k + 1) (days plan)"
proof -
  let ?r = "TimeWithinDay (startDate plan)"
  have r: "0 \<le> ?r" "?r < msPerDay"
    by (simp_all add: TimeWithinDay_def msPerDay_def)
  have s: "startDate plan = Day (startDate plan) * msPerDay + ?r"
    by (simp add: time_split)
  have t: "setHours0 now = Day (startDate plan) * msPerDay + k * msPerDay"
    by (simp add: setHours0_eq assms(1) algebra_simps)
  have diff: "setHours0 now - startDate plan = k * msPerDay - ?r"
    using s t by linarith
  have "msPerDay \<le> k * msPerDay"
    using assms(2) by (simp add: msPerDay_def)
  with r diff have pos: "0 \<le> setHours0 now - startDate plan"
    by linarith
  then have ge: "startDate plan \<le> setHours0 now"
    by simp
  have "ceilDiv \<bar>setHours0 now - startDate plan\<bar> (1000 * 60 * 60 * 24) = k"
    using pos diff ceilDiv_days [OF r] by simp
  then show ?thesis
    using ge assms(3) by (simp add: autoSelectTarget_def Let_def)
qed

lemma autoSelectTarget_start_day:
  assumes "Day now = Day (startDate plan)" and "0 < TimeWithinDay (startDate plan)"
  shows "autoSelectTarget now plan = None"
proof -
  have "startDate plan = Day (startDate plan) * msPerDay + TimeWithinDay (startDate plan)"
    by (simp add: time_split)
  with assms have "setHours0 now < startDate plan"
    by (simp add: setHours0_eq)
  then show ?thesis
    by (simp add: autoSelectTarget_def Let_def)
qed

text \<open>
  C2 (the code departs from the claim). The plan of the example was started on
  15 January 2024 at 10:30. Opened at noon of the same day, today's midnight lies before
  the stored start time, the range test fails and no day is selected, where the claim
  selects day 1. Opened at noon of the next day, day 2 is selected.
\<close>

theorem autoSelect_misses_start_day:
  "Day (dateOf 2024 0 15 + 43200000) = Day (startDate examplePlan)
   \<and> autoSelectTarget (dateOf 2024 0 15 + 43200000) examplePlan = None
   \<and> selectedDay (openPlan (dateOf 2024 0 15 + 43200000) ''plan-1'' exampleState) = None
   \<and> selectedDay (openPlan (dateOf 2024 0 16 + 43200000) ''plan-1'' exampleState) = Some (exampleDay 2)"
  by code_simp

section \<open>Properties of the quiz score\<close>

lemma fold_count:
  "fold (\<lambda>(idx, q) score. if P idx q then score + 1 else score) xs (a::nat)
     = a + length (filter (\<lambda>(idx, q). P idx q) xs)"
  by (induction xs arbitrary: a) (auto split: prod.splits)

lemma calculateScore_filter:
  "calculateScore questions userAnswers
     = length (filter (\<lambda>(idx, q). answerAt userAnswers idx = Some (correctAnswerIndex q))
                      (enumerate 0 questions))"
  unfolding calculateScore_def
  by (simp add: fold_count [where P = "\<lambda>idx q. answerAt userAnswers idx = Some (correctAnswerIndex q)"])

text \<open>
  C8. The score is the number of indices of the question sequence at which the recorded
  answer equals the question's \<open>correctAnswerIndex\<close>. An index with no recorded answer (a
  hole of the array, or an index past its end) is never among them, so the score is at
  most the number of answered questions, and at most the number of questions.
\<close>

theorem calculateScore_counts_matches:
  "calculateScore questions userAnswers
     = card {i. i < length questions
               \<and> answerAt userAnswers i = Some (correctAnswerIndex (questions ! i))}
   \<and> {i. i < length questions \<and> answerAt userAnswers i = Some (correctAnswerIndex (questions ! i))}
       \<subseteq> {i. i < length questions \<and> answerAt userAnswers i \<noteq> None}
   \<and> calculateScore questions userAnswers
       \<le> card {i. i < length questions \<and> answerAt userAnswers i \<noteq> None}
   \<and> calculateScore questions userAnswers \<le> length questions"
proof -
  let ?hit = "{i. i < length questions
               \<and> answerAt userAnswers i = Some (correctAnswerIndex (questions ! i))}"
  let ?answered = "{i. i < length questions \<and> answerAt userAnswers i \<noteq> None}"
  have "calculateScore questions userAnswers
          = card {i. i < length (enumerate 0 questions)
                    \<and> (case enumerate 0 questions ! i of
                          (idx, q) \<Rightarrow> answerAt userAnswers idx = Some (correctAnswerIndex q))}"
    unfolding calculateScore_filter by (rule length_filter_conv_card)
  also have "{i. i < length (enumerate 0 questions)
                    \<and> (case enumerate 0 questions ! i of
                          (idx, q) \<Rightarrow> answerAt userAnswers idx = Some (correctAnswerIndex q))}
             = ?hit"
    by (auto simp: nth_enumerate_eq)
  finally have score: "calculateScore questions userAnswers = card ?hit" .
  have sub: "?hit \<subseteq> ?answered"
    by auto
  have "finite ?answered"
    by simp
  with sub have le: "card ?hit \<le> card ?answered"
    by (rule card_mono [rotated])
  have "?answered \<subseteq> {..<length questions}"
    by auto
  then have "card ?answered \<le> length questions"
    using card_mono [of "{..<length questions}" ?answered] by simp
  with score sub le show ?thesis
    by simp
qed

lemma calculateScore_example:
  "calculateScore
     [\<lparr>question = ''Q1'', options = [''a'', ''b''], correctAnswerIndex = 1, explanation = ''''\<rparr>,
      \<lparr>question = ''Q2'', options = [''a'', ''b''], correctAnswerIndex = 0, explanation = ''''\<rparr>,
      \<lparr>question = ''Q3'', options = [''a'', ''b''], correctAnswerIndex = 0, explanation = ''''\<rparr>]
     (handleAnswer 2 1 (handleAnswer 0 1 [])) = 1
   \<and> handleAnswer 2 1 (handleAnswer 0 1 []) = [Some 1, None, Some 1]"
  by code_simp

section \<open>Properties of the session toggle\<close>

lemma toggleSessions_opens:
  assumes "old = (case stored of None \<Rightarrow> [] | Some ss \<Rightarrow> ss)"
    and "old = [] \<or> endTime (last old) \<noteq> None"
  shows "toggleSessions now stored = old @ [\<lparr>start = now, endTime = None\<rparr>]"
  using assms by (auto simp: toggleSessions_def Let_def split: option.splits)

lemma toggleSessions_closes:
  assumes "old = (case stored of None \<Rightarrow> [] | Some ss \<Rightarrow> ss)"
    and "old \<noteq> []" and "endTime (last old) = None"
  shows "toggleSessions now stored = butlast old @ [\<lparr>start = start (last old), endTime = Some now\<rparr>]"
proof -
  have "old[length old - 1 := (last old)\<lparr>endTime := Some now\<rparr>]
          = butlast old @ [(last old)\<lparr>endTime := Some now\<rparr>]"
    using assms(2) by (induction old rule: rev_induct) simp_all
  moreover have "(last old)\<lparr>endTime := Some now\<rparr> = \<lparr>start = start (last old), endTime = Some now\<rparr>"
    by simp
  ultimately show ?thesis
    using assms by (simp add: toggleSessions_def Let_def)
qed

lemma handleSessionToggle_plans:
  assumes "truthy (activePlanId s)"
  shows "plans (handleSessionToggle now dn s)
           = mapActiveDays (activePlanId s) (toggleSessionOfDay now dn) (plans s)"
  using assms by (simp add: handleSessionToggle_def)

lemma sessionsAt_toggled:
  assumes "truthy (activePlanId s)" and "i < length (plans s)" and "j < length (days (plans s ! i))"
    and "Some (planId (plans s ! i)) = activePlanId s" and "dayNumber (days (plans s ! i) ! j) = dn"
  shows "sessionsAt (handleSessionToggle now dn s) i j
           = toggleSessions now (sessions (days (plans s ! i) ! j))"
  using assms
  by (simp add: sessionsAt_def handleSessionToggle_plans mapActiveDays_def toggleSessionOfDay_def)

lemma handleSessionToggle_elsewhere:
  assumes "i < length (plans s)" and "j < length (days (plans s ! i))"
    and "\<not> (Some (planId (plans s ! i)) = activePlanId s \<and> dayNumber (days (plans s ! i) ! j) = dn)"
  shows "days (plans (handleSessionToggle now dn s) ! i) ! j = days (plans s ! i) ! j"
proof (cases "truthy (activePlanId s)")
  case True
  with assms show ?thesis
    by (auto simp: handleSessionToggle_plans mapActiveDays_def toggleSessionOfDay_def)
next
  case False
  then show ?thesis
    by (simp add: handleSessionToggle_def)
qed

text \<open>
  C6 (as amended). For a day of the active plan that the toggle addresses: when its session
  sequence is empty or its last session has an end, the toggle appends a session that
  starts now and has no end; when its last session has no end, the toggle sets the end of
  that last session to now and leaves its start. The handler does not compare the two
  times: the end is not before the start exactly when the time read at closing is not
  before the start that was recorded at opening. The sessions before the last one are kept
  in both cases, and every other day of the collection is unchanged. Toggling a day
  without sessions twice, at \<open>t1\<close> and then at \<open>t2\<close>, leaves the single session with start
  \<open>t1\<close> and end \<open>t2\<close>.
\<close>

theorem handleSessionToggle_alternates:
  assumes "truthy (activePlanId s)" and "i < length (plans s)" and "j < length (days (plans s ! i))"
    and "Some (planId (plans s ! i)) = activePlanId s" and "dayNumber (days (plans s ! i) ! j) = dn"
  shows "(sessionsAt s i j = [] \<or> endTime (last (sessionsAt s i j)) \<noteq> None \<longrightarrow>
            sessionsAt (handleSessionToggle now dn s) i j
              = sessionsAt s i j @ [\<lparr>start = now, endTime = None\<rparr>])
       \<and> (sessionsAt s i j \<noteq> [] \<and> endTime (last (sessionsAt s i j)) = None \<longrightarrow>
            sessionsAt (handleSessionToggle now dn s) i j
              = butlast (sessionsAt s i j)
                @ [\<lparr>start = start (last (sessionsAt s i j)), endTime = Some now\<rparr>]
            \<and> endTime (last (sessionsAt (handleSessionToggle now dn s) i j)) = Some now
            \<and> start (last (sessionsAt (handleSessionToggle now dn s) i j))
                = start (last (sessionsAt s i j))
            \<and> ((\<exists>e. endTime (last (sessionsAt (handleSessionToggle now dn s) i j)) = Some e
                      \<and> start (last (sessionsAt (handleSessionToggle now dn s) i j)) \<le> e)
                 \<longleftrightarrow> start (last (sessionsAt s i j)) \<le> now))
       \<and> (\<forall>i' j'. i' < length (plans s) \<and> j' < length (days (plans s ! i'))
             \<and> \<not> (Some (planId (plans s ! i')) = activePlanId s
                    \<and> dayNumber (days (plans s ! i') ! j') = dn)
             \<longrightarrow> days (plans (handleSessionToggle now dn s) ! i') ! j' = days (plans s ! i') ! j')
       \<and> toggleSessions t2 (Some (toggleSessions t1 None)) = [\<lparr>start = t1, endTime = Some t2\<rparr>]"
proof (intro conjI impI allI)
  have new: "sessionsAt (handleSessionToggle now dn s) i j
           = toggleSessions now (sessions (days (plans s ! i) ! j))"
    using assms by (rule sessionsAt_toggled)
  have old: "sessionsAt s i j = (case sessions (days (plans s ! i) ! j) of None \<Rightarrow> [] | Some ss \<Rightarrow> ss)"
    by (simp add: sessionsAt_def)
  show "sessionsAt (handleSessionToggle now dn s) i j
              = sessionsAt s i j @ [\<lparr>start = now, endTime = None\<rparr>]"
    if "sessionsAt s i j = [] \<or> endTime (last (sessionsAt s i j)) \<noteq> None"
    unfolding new using old that by (rule toggleSessions_opens)
  show closed: "sessionsAt (handleSessionToggle now dn s) i j
              = butlast (sessionsAt s i j)
                @ [\<lparr>start = start (last (sessionsAt s i j)), endTime = Some now\<rparr>]"
    if "sessionsAt s i j \<noteq> [] \<and> endTime (last (sessionsAt s i j)) = None"
    unfolding new using old that by (auto intro: toggleSessions_closes)
  show "endTime (last (sessionsAt (handleSessionToggle now dn s) i j)) = Some now"
    if "sessionsAt s i j \<noteq> [] \<and> endTime (last (sessionsAt s i j)) = None"
    using closed [OF that] by simp
  show "start (last (sessionsAt (handleSessionToggle now dn s) i j))
          = start (last (sessionsAt s i j))"
    if "sessionsAt s i j \<noteq> [] \<and> endTime (last (sessionsAt s i j)) = None"
    using closed [OF that] by simp
  show "(\<exists>e. endTime (last (sessionsAt (handleSessionToggle now dn s) i j)) = Some e
                      \<and> start (last (sessionsAt (handleSessionToggle now dn s) i j)) \<le> e)
          \<longleftrightarrow> start (last (sessionsAt s i j)) \<le> now"
    if "sessionsAt s i j \<noteq> [] \<and> endTime (last (sessionsAt s i j)) = None"
    using closed [OF that] by simp
  show "days (plans (handleSessionToggle now dn s) ! i') ! j' = days (plans s ! i') ! j'"
    if "i' < length (plans s) \<and> j' < length (days (plans s ! i'))
             \<and> \<not> (Some (planId (plans s ! i')) = activePlanId s
                    \<and> dayNumber (days (plans s ! i') ! j') = dn)" for i' j'
    using that by (intro handleSessionToggle_elsewhere) simp_all
  show "toggleSessions t2 (Some (toggleSessions t1 None)) = [\<lparr>start = t1, endTime = Some t2\<rparr>]"
    by (simp add: toggleSessions_def)
qed

theorem handleSessionToggle_alternates_witness:
  "truthy (activePlanId exampleState)
   \<and> 0 < length (plans exampleState)
   \<and> 0 < length (days (plans exampleState ! 0))
   \<and> Some (planId (plans exampleState ! 0)) = activePlanId exampleState
   \<and> dayNumber (days (plans exampleState ! 0) ! 0) = 1
   \<and> sessionsAt exampleState 0 0 = []
   \<and> sessionsAt (handleSessionToggle 1000 1 exampleState) 0 0 = [\<lparr>start = 1000, endTime = None\<rparr>]
   \<and> start (last (sessionsAt (handleSessionToggle 1000 1 exampleState) 0 0)) \<le> 2000
   \<and> sessionsAt (handleSessionToggle 2000 1 (handleSessionToggle 1000 1 exampleState)) 0 0
       = [\<lparr>start = 1000, endTime = Some 2000\<rparr>]"
proof -
  let ?s1 = "handleSessionToggle 1000 1 exampleState"
  have a: "truthy (activePlanId exampleState)" "0 < length (plans exampleState)"
    "0 < length (days (plans exampleState ! 0))"
    "Some (planId (plans exampleState ! 0)) = activePlanId exampleState"
    "dayNumber (days (plans exampleState ! 0) ! 0) = 1"
    by code_simp+
  have e: "sessionsAt exampleState 0 0 = []"
    by code_simp
  have first: "sessionsAt ?s1 0 0 = [\<lparr>start = 1000, endTime = None\<rparr>]"
    using handleSessionToggle_alternates [OF a, where now = 1000] e by simp
  have b: "truthy (activePlanId ?s1)" "0 < length (plans ?s1)"
    "0 < length (days (plans ?s1 ! 0))"
    "Some (planId (plans ?s1 ! 0)) = activePlanId ?s1"
    "dayNumber (days (plans ?s1 ! 0) ! 0) = 1"
    by code_simp+
  have second: "sessionsAt (handleSessionToggle 2000 1 ?s1) 0 0 = [\<lparr>start = 1000, endTime = Some 2000\<rparr>]"
    using handleSessionToggle_alternates [OF b, where now = 2000] first by simp
  from a e first second show ?thesis
    by simp
qed

text \<open>
  The claim has every closing yield an end that is not before the start. With a clock that
  was set back between the two toggles, read as 1000 at opening and as 500 at closing, the
  closed session has the end 500 before its start 1000.
\<close>

theorem handleSessionToggle_alternates_counterexample:
  "sessionsAt (handleSessionToggle 1000 1 exampleState) 0 0 = [\<lparr>start = 1000, endTime = None\<rparr>]
   \<and> sessionsAt (handleSessionToggle 500 1 (handleSessionToggle 1000 1 exampleState)) 0 0
       = [\<lparr>start = 1000, endTime = Some 500\<rparr>]
   \<and> endTime (last (sessionsAt (handleSessionToggle 500 1
                                   (handleSessionToggle 1000 1 exampleState)) 0 0)) = Some 500
   \<and> \<not> start (last (sessionsAt (handleSessionToggle 500 1
                                     (handleSessionToggle 1000 1 exampleState)) 0 0)) \<le> 500"
  by code_simp

section \<open>Properties of the task toggle\<close>

lemma mapActiveDays_length: "length (mapActiveDays a f ps) = length ps"
  by (simp add: mapActiveDays_def)

lemma mapActiveDays_comp:
  "mapActiveDays a f (mapActiveDays a g ps) = mapActiveDays a (f \<circ> g) ps"
  by (induction ps) (simp_all add: mapActiveDays_def)

lemma mapActiveDays_ident:
  assumes "\<And>plan day. plan \<in> set ps \<Longrightarrow> Some (planId plan) = a \<Longrightarrow> day \<in> set (days plan) \<Longrightarrow> f day = day"
  shows "mapActiveDays a f ps = ps"
proof -
  have "(if Some (planId plan) \<noteq> a then plan else plan\<lparr>days := map f (days plan)\<rparr>) = plan"
    if "plan \<in> set ps" for plan
  proof (cases "Some (planId plan) = a")
    case True
    with that assms have "map f (days plan) = days plan"
      by (simp add: map_idI)
    with True show ?thesis by simp
  next
    case False
    then show ?thesis by simp
  qed
  then show ?thesis
    unfolding mapActiveDays_def by (simp add: map_idI)
qed

lemma toggleTaskOfDay_twice: "toggleTaskOfDay dn tid (toggleTaskOfDay dn tid day) = day"
proof -
  have "map (\<lambda>task. if taskId task = tid then task\<lparr>isCompleted := \<not> isCompleted task\<rparr> else task)
          (map (\<lambda>task. if taskId task = tid then task\<lparr>isCompleted := \<not> isCompleted task\<rparr> else task) ts)
        = ts" for ts :: "Task list"
    by (induction ts) auto
  then show ?thesis
    by (simp add: toggleTaskOfDay_def)
qed

lemma handleToggleTask_twice: "handleToggleTask dn tid (handleToggleTask dn tid s) = s"
proof (cases "truthy (activePlanId s)")
  case True
  have "mapActiveDays (activePlanId s) (toggleTaskOfDay dn tid \<circ> toggleTaskOfDay dn tid) (plans s) = plans s"
    by (rule mapActiveDays_ident) (simp add: toggleTaskOfDay_twice)
  with True show ?thesis
    by (simp add: handleToggleTask_def mapActiveDays_comp)
next
  case False
  then show ?thesis
    by (simp add: handleToggleTask_def)
qed

lemma flipTask_changes: "flipTask e \<noteq> e"
proof -
  obtain pid d task where e: "e = (pid, d, task)"
    by (cases e) auto
  have "isCompleted (task\<lparr>isCompleted := \<not> isCompleted task\<rparr>) \<noteq> isCompleted task"
    by simp
  then have "task\<lparr>isCompleted := \<not> isCompleted task\<rparr> \<noteq> task"
    by metis
  then show ?thesis
    by (simp add: e flipTask_def)
qed

lemma dayTasks_toggled:
  assumes "truthy (activePlanId s)" and "Some pid = activePlanId s"
  shows "dayTasks pid (toggleTaskOfDay dn tid day)
           = map (\<lambda>e. if matchesTask s dn tid e then flipTask e else e) (dayTasks pid day)"
  using assms by (simp add: dayTasks_def toggleTaskOfDay_def matchesTask_def flipTask_def)

lemma dayTasks_unmatched:
  assumes "Some pid \<noteq> activePlanId s"
  shows "map (\<lambda>e. if matchesTask s dn tid e then flipTask e else e) (dayTasks pid day)
           = dayTasks pid day"
  using assms by (simp add: dayTasks_def matchesTask_def)

lemma planTasks_toggled:
  assumes "truthy (activePlanId s)"
  shows "planTasks (if Some (planId plan) \<noteq> activePlanId s then plan
                    else plan\<lparr>days := map (toggleTaskOfDay dn tid) (days plan)\<rparr>)
           = map (\<lambda>e. if matchesTask s dn tid e then flipTask e else e) (planTasks plan)"
proof (cases "Some (planId plan) = activePlanId s")
  case True
  then show ?thesis
    using dayTasks_toggled [OF assms True]
    by (simp add: planTasks_def map_concat comp_def)
next
  case False
  then show ?thesis
    using dayTasks_unmatched [OF False]
    by (simp add: planTasks_def map_concat comp_def)
qed

lemma allTasks_toggled:
  "allTasks (handleToggleTask dn tid s)
     = map (\<lambda>e. if matchesTask s dn tid e then flipTask e else e) (allTasks s)"
proof (cases "truthy (activePlanId s)")
  case True
  then show ?thesis
    using planTasks_toggled [OF True]
    by (simp add: allTasks_def handleToggleTask_def mapActiveDays_def map_concat comp_def)
next
  case False
  then have "\<And>e. \<not> matchesTask s dn tid e"
    by (simp add: matchesTask_def split: prod.splits)
  with False show ?thesis
    by (simp add: handleToggleTask_def)
qed

lemma handleToggleTask_no_match:
  assumes "filter (matchesTask s dn tid) (allTasks s) = []"
  shows "handleToggleTask dn tid s = s"
proof (cases "truthy (activePlanId s)")
  case True
  have "toggleTaskOfDay dn tid day = day"
    if p: "plan \<in> set (plans s)" and a: "Some (planId plan) = activePlanId s"
      and d: "day \<in> set (days plan)" for plan day
  proof (cases "dayNumber day = dn")
    case dn: True
    have "taskId task \<noteq> tid" if t: "task \<in> set (tasks day)" for task
    proof
      assume "taskId task = tid"
      with True a dn have "matchesTask s dn tid (planId plan, dayNumber day, task)"
        by (simp add: matchesTask_def)
      moreover have "(planId plan, dayNumber day, task) \<in> set (allTasks s)"
        using p d t by (auto simp: allTasks_def planTasks_def dayTasks_def)
      ultimately show False
        using assms by (simp add: filter_empty_conv)
    qed
    then have "map (\<lambda>task. if taskId task = tid then task\<lparr>isCompleted := \<not> isCompleted task\<rparr> else task)
                 (tasks day) = tasks day"
      by (simp add: map_idI)
    then show ?thesis
      by (simp add: toggleTaskOfDay_def)
  next
    case False
    then show ?thesis
      by (simp add: toggleTaskOfDay_def)
  qed
  then have "mapActiveDays (activePlanId s) (toggleTaskOfDay dn tid) (plans s) = plans s"
    by (rule mapActiveDays_ident)
  with True show ?thesis
    by (simp add: handleToggleTask_def)
next
  case False
  then show ?thesis
    by (simp add: handleToggleTask_def)
qed

lemma changed_tasks_count:
  "card {n. n < length (allTasks s)
            \<and> allTasks (handleToggleTask dn tid s) ! n \<noteq> allTasks s ! n}
     = length (filter (matchesTask s dn tid) (allTasks s))"
proof -
  have "{n. n < length (allTasks s)
            \<and> allTasks (handleToggleTask dn tid s) ! n \<noteq> allTasks s ! n}
        = {n. n < length (allTasks s) \<and> matchesTask s dn tid (allTasks s ! n)}"
    by (auto simp: allTasks_toggled flipTask_changes split: if_splits)
  then show ?thesis
    by (simp add: length_filter_conv_card)
qed

text \<open>
  C9. Toggling the same day number and task id twice gives back the state. One toggle
  flips the completion flag of every task that matches (it sits in the active plan, under
  a day with that number, and has that id) and leaves every other task, and everything
  else in the state, as it was: the tasks that differ afterwards are as many as the
  matching ones, so where exactly one task matches, exactly one task changes. With no
  matching task the toggle returns the state unchanged.
\<close>

theorem handleToggleTask_flips_one_task:
  "handleToggleTask dn tid (handleToggleTask dn tid s) = s
   \<and> allTasks (handleToggleTask dn tid s)
       = map (\<lambda>e. if matchesTask s dn tid e then flipTask e else e) (allTasks s)
   \<and> card {n. n < length (allTasks s)
              \<and> allTasks (handleToggleTask dn tid s) ! n \<noteq> allTasks s ! n}
       = length (filter (matchesTask s dn tid) (allTasks s))
   \<and> (length (filter (matchesTask s dn tid) (allTasks s)) = 1 \<longrightarrow>
        (\<exists>!n. n < length (allTasks s)
              \<and> allTasks (handleToggleTask dn tid s) ! n \<noteq> allTasks s ! n))
   \<and> (filter (matchesTask s dn tid) (allTasks s) = [] \<longrightarrow> handleToggleTask dn tid s = s)
   \<and> (handleToggleTask dn tid s)\<lparr>plans := plans s\<rparr> = s"
proof (intro conjI impI)
  show "handleToggleTask dn tid (handleToggleTask dn tid s) = s"
    by (rule handleToggleTask_twice)
  show "allTasks (handleToggleTask dn tid s)
       = map (\<lambda>e. if matchesTask s dn tid e then flipTask e else e) (allTasks s)"
    by (rule allTasks_toggled)
  show "card {n. n < length (allTasks s)
              \<and> allTasks (handleToggleTask dn tid s) ! n \<noteq> allTasks s ! n}
       = length (filter (matchesTask s dn tid) (allTasks s))"
    by (rule changed_tasks_count)
  show "\<exists>!n. n < length (allTasks s)
              \<and> allTasks (handleToggleTask dn tid s) ! n \<noteq> allTasks s ! n"
    if "length (filter (matchesTask s dn tid) (allTasks s)) = 1"
  proof -
    define changed where
      "changed n \<longleftrightarrow> n < length (allTasks s)
                    \<and> allTasks (handleToggleTask dn tid s) ! n \<noteq> allTasks s ! n" for n
    have "Collect changed = {n. n < length (allTasks s)
              \<and> allTasks (handleToggleTask dn tid s) ! n \<noteq> allTasks s ! n}"
      by (auto simp: changed_def)
    then have "card (Collect changed) = 1"
      using that changed_tasks_count [of s dn tid] by simp
    then obtain k where k: "Collect changed = {k}"
      by (rule card_1_singletonE)
    then have "changed k" and "\<And>n. changed n \<Longrightarrow> n = k"
      by blast+
    then have "\<exists>!n. changed n"
      by blast
    then show ?thesis
      by (simp add: changed_def)
  qed
  show "handleToggleTask dn tid s = s" if "filter (matchesTask s dn tid) (allTasks s) = []"
    using that by (rule handleToggleTask_no_match)
  show "(handleToggleTask dn tid s)\<lparr>plans := plans s\<rparr> = s"
    by (simp add: handleToggleTask_def)
qed

theorem handleToggleTask_flips_one_task_witness:
  "length (filter (matchesTask exampleState 1 ''task-1-0'') (allTasks exampleState)) = 1
   \<and> (\<exists>!n. n < length (allTasks exampleState)
            \<and> allTasks (handleToggleTask 1 ''task-1-0'' exampleState) ! n \<noteq> allTasks exampleState ! n)
   \<and> map (\<lambda>e. isCompleted (snd (snd e))) (allTasks (handleToggleTask 1 ''task-1-0'' exampleState))
       = [True, False]
   \<and> filter (matchesTask exampleState 1 ''task-9-9'') (allTasks exampleState) = []
   \<and> handleToggleTask 1 ''task-9-9'' exampleState = exampleState"
proof (intro conjI)
  show one: "length (filter (matchesTask exampleState 1 ''task-1-0'') (allTasks exampleState)) = 1"
    by code_simp
  from one handleToggleTask_flips_one_task [of 1 "''task-1-0''" exampleState]
  show "\<exists>!n. n < length (allTasks exampleState)
            \<and> allTasks (handleToggleTask 1 ''task-1-0'' exampleState) ! n \<noteq> allTasks exampleState ! n"
    by blast
  show "map (\<lambda>e. isCompleted (snd (snd e))) (allTasks (handleToggleTask 1 ''task-1-0'' exampleState))
       = [True, False]"
    by code_simp
  show none: "filter (matchesTask exampleState 1 ''task-9-9'') (allTasks exampleState) = []"
    by code_simp
  from none handleToggleTask_flips_one_task [of 1 "''task-9-9''" exampleState]
  show "handleToggleTask 1 ''task-9-9'' exampleState = exampleState"
    by blast
qed

section \<open>Properties of the plan refinement\<close>

lemma mapResult_Inr:
  assumes "mapResult f xs = Inr ys"
  shows "length ys = length xs \<and> (\<forall>i < length xs. f (xs ! i) = Inr (ys ! i))"
  using assms
proof (induction xs arbitrary: ys)
  case Nil
  then show ?case by simp
next
  case (Cons x xs)
  from Cons.prems obtain y ys' where y: "f x = Inr y" and r: "mapResult f xs = Inr ys'"
    and ys: "ys = y # ys'"
    by (auto split: sum.splits)
  from Cons.IH [OF r] have "length ys' = length xs" and "\<forall>i < length xs. f (xs ! i) = Inr (ys' ! i)"
    by simp_all
  with y ys show ?case
    by (auto simp: nth_Cons split: nat.splits)
qed

lemma mapResult_set:
  assumes "mapResult f xs = Inr ys" and "y \<in> set ys"
  shows "\<exists>x \<in> set xs. f x = Inr y"
proof -
  from assms(2) obtain i where i: "i < length ys" and y: "ys ! i = y"
    by (auto simp: in_set_conv_nth)
  with mapResult_Inr [OF assms(1)] have "i < length xs" and "f (xs ! i) = Inr y"
    by auto
  then show ?thesis
    by (metis nth_mem)
qed

lemma formatDay_fresh:
  assumes "formatDay mk d = Inr day"
  shows "dayNotes day = None" and "sessions day = None" and "dayNumber day = rawDayNumber d"
    and "list_all (\<lambda>t. \<not> isCompleted t) (tasks day)"
    and "\<forall>idx < length (tasks day). taskId (tasks day ! idx) = mk (dayNumber day) idx"
proof -
  from assms obtain ts where ts: "rawTasks d = Some ts"
    and day: "day = \<lparr>dayNumber = rawDayNumber d, title = rawTitle d, description = rawDescription d,
               tasks = map (\<lambda>(idx, t). formatTask (mk (rawDayNumber d) idx) t) (enumerate 0 ts),
               dayNotes = None, sessions = None\<rparr>"
    by (auto simp: formatDay_def split: option.splits)
  show "dayNotes day = None" and "sessions day = None" and "dayNumber day = rawDayNumber d"
    by (simp_all add: day)
  show "list_all (\<lambda>t. \<not> isCompleted t) (tasks day)"
    by (auto simp: day list_all_iff formatTask_def)
  show "\<forall>idx < length (tasks day). taskId (tasks day ! idx) = mk (dayNumber day) idx"
    by (simp add: day nth_enumerate_eq formatTask_def)
qed

lemma updatePlanWithChat_Inr:
  assumes "updatePlanWithChat parse clock updatedAt currentPlan response = Inr p'"
  obtains rtext data ds updatedDays where "response = Inr (Some rtext)" and "rtext \<noteq> []"
    and "extractJson parse rtext = Inr data" and "rawDays data = Some ds"
    and "mapResult (formatDay (\<lambda>dn idx. refinedTaskId dn idx (clock dn idx))) ds = Inr updatedDays"
    and "p' = currentPlan\<lparr>days := updatedDays, durationDays := int (length updatedDays),
                           lastUpdated := updatedAt\<rparr>"
  using assms
  by (auto simp: updatePlanWithChat_def split: sum.splits option.splits if_splits)

lemma generateLearningPlan_Inr:
  assumes "generateLearningPlan parse response = Inr planData"
  obtains ds where "mapResult (formatDay generatedTaskId) ds = Inr (dataDays planData)"
  using assms
  by (auto simp: generateLearningPlan_def split: sum.splits option.splits if_splits)

text \<open>
  C10. When \<open>updatePlanWithChat\<close> succeeds, every day of the returned plan has no notes and
  no sessions, and every task of it is not completed and carries the identifier made from
  its day number, its index and the time at which it was built. The days are built from
  the answer of the model alone: any other current plan gives the same days. Of the
  current plan the result keeps everything but the days, the duration, which becomes the
  number of days, and the time of the last update.
\<close>

theorem updatePlanWithChat_discards_progress:
  assumes "updatePlanWithChat parse clock updatedAt currentPlan response = Inr p'"
  shows "(\<forall>day \<in> set (days p').
            dayNotes day = None \<and> sessions day = None
            \<and> (\<forall>idx < length (tasks day).
                  isCompleted (tasks day ! idx) = False
                  \<and> taskId (tasks day ! idx)
                      = refinedTaskId (dayNumber day) idx (clock (dayNumber day) idx)))
       \<and> (\<forall>otherPlan. \<exists>q. updatePlanWithChat parse clock updatedAt otherPlan response = Inr q
                           \<and> days q = days p')
       \<and> durationDays p' = int (length (days p'))
       \<and> lastUpdated p' = updatedAt
       \<and> p'\<lparr>days := days currentPlan, durationDays := durationDays currentPlan,
             lastUpdated := lastUpdated currentPlan\<rparr> = currentPlan"
proof -
  let ?mk = "\<lambda>dn idx. refinedTaskId dn idx (clock dn idx)"
  from assms obtain rtext data ds updatedDays where r: "response = Inr (Some rtext)" "rtext \<noteq> []"
    "extractJson parse rtext = Inr data" "rawDays data = Some ds"
    and m: "mapResult (formatDay ?mk) ds = Inr updatedDays"
    and p': "p' = currentPlan\<lparr>days := updatedDays, durationDays := int (length updatedDays),
                           lastUpdated := updatedAt\<rparr>"
    by (rule updatePlanWithChat_Inr)
  have fresh: "dayNotes day = None \<and> sessions day = None
            \<and> (\<forall>idx < length (tasks day).
                  isCompleted (tasks day ! idx) = False
                  \<and> taskId (tasks day ! idx) = ?mk (dayNumber day) idx)"
    if "day \<in> set updatedDays" for day
  proof -
    from mapResult_set [OF m that] obtain d where "formatDay ?mk d = Inr day"
      by blast
    from formatDay_fresh [OF this] show ?thesis
      by (simp add: list_all_length)
  qed
  have other: "\<exists>q. updatePlanWithChat parse clock updatedAt otherPlan response = Inr q
                           \<and> days q = days p'" for otherPlan
    using r m by (simp add: updatePlanWithChat_def p')
  from fresh other show ?thesis
    by (simp add: p')
qed


theorem updatePlanWithChat_discards_progress_witness:
  "updatePlanWithChat parsePlan (\<lambda>dn idx. 1700 + int idx) 1800 busyPlan
       (Inr (Some refinementAnswer)) = Inr refinedPlan
   \<and> dayNotes (hd (days busyPlan)) = Some ''Remember the exercises''
   \<and> sessions (hd (days busyPlan)) = Some [\<lparr>start = 1000, endTime = None\<rparr>]
   \<and> isCompleted (hd (tasks (hd (days busyPlan))))
   \<and> list_all (\<lambda>day. dayNotes day = None \<and> sessions day = None
                      \<and> list_all (\<lambda>t. \<not> isCompleted t) (tasks day)) (days refinedPlan)
   \<and> durationDays refinedPlan = int (length (days refinedPlan))"
proof (intro conjI)
  show e: "updatePlanWithChat parsePlan (\<lambda>dn idx. 1700 + int idx) 1800 busyPlan
       (Inr (Some refinementAnswer)) = Inr refinedPlan"
    by code_simp
  show "dayNotes (hd (days busyPlan)) = Some ''Remember the exercises''"
    by code_simp
  show "sessions (hd (days busyPlan)) = Some [\<lparr>start = 1000, endTime = None\<rparr>]"
    by code_simp
  show "isCompleted (hd (tasks (hd (days busyPlan))))"
    by code_simp
  note fresh = updatePlanWithChat_discards_progress [OF e]
  from fresh show "list_all (\<lambda>day. dayNotes day = None \<and> sessions day = None
                      \<and> list_all (\<lambda>t. \<not> isCompleted t) (tasks day)) (days refinedPlan)"
    by (simp add: list_all_iff Ball_def in_set_conv_nth) blast
  from fresh show "durationDays refinedPlan = int (length (days refinedPlan))"
    by blast
qed

section \<open>The open-session invariant\<close>

lemma openSessionInv_iff: "openSessionInv ss \<longleftrightarrow> list_all (\<lambda>x. \<not> isOpen x) (butlast ss)"
proof (cases ss rule: rev_cases)
  case Nil
  then show ?thesis
    by (simp add: openSessionInv_def)
next
  case (snoc xs x)
  have none: "length (filter isOpen xs) = 0 \<longleftrightarrow> list_all (\<lambda>x. \<not> isOpen x) xs"
    by (simp add: filter_empty_conv list_all_iff)
  have ex: "list_ex isOpen xs \<longleftrightarrow> \<not> list_all (\<lambda>x. \<not> isOpen x) xs"
    by (simp add: list_ex_iff list_all_iff)
  show ?thesis
  proof (cases "isOpen x")
    case True
    with snoc none show ?thesis
      by (simp add: openSessionInv_def)
  next
    case False
    with snoc none ex show ?thesis
      by (auto simp: openSessionInv_def)
  qed
qed

lemma toggleSessions_inv:
  assumes "openSessionInv (case stored of None \<Rightarrow> [] | Some ss \<Rightarrow> ss)"
  shows "openSessionInv (toggleSessions now stored)"
proof -
  define old where "old = (case stored of None \<Rightarrow> [] | Some ss \<Rightarrow> ss)"
  from assms have closed: "list_all (\<lambda>x. \<not> isOpen x) (butlast old)"
    by (simp add: old_def openSessionInv_iff)
  show ?thesis
  proof (cases "old \<noteq> [] \<and> endTime (last old) = None")
    case True
    then have "toggleSessions now stored
                 = butlast old @ [\<lparr>start = start (last old), endTime = Some now\<rparr>]"
      using toggleSessions_closes [of old stored now] by (simp add: old_def)
    with closed show ?thesis
      by (simp add: openSessionInv_iff)
  next
    case False
    then have new: "toggleSessions now stored = old @ [\<lparr>start = now, endTime = None\<rparr>]"
      using toggleSessions_opens [of old stored now] by (auto simp: old_def)
    have "list_all (\<lambda>x. \<not> isOpen x) old"
    proof (cases old rule: rev_cases)
      case Nil
      then show ?thesis by simp
    next
      case (snoc xs x)
      with False closed show ?thesis
        by (simp add: isOpen_def)
    qed
    with new show ?thesis
      by (simp add: openSessionInv_iff)
  qed
qed

lemma toggleSessionOfDay_inv: "dayInv day \<Longrightarrow> dayInv (toggleSessionOfDay now dn day)"
  using toggleSessions_inv [of "sessions day" now]
  by (auto simp: dayInv_def toggleSessionOfDay_def openSessionInv_def split: option.splits)

lemma toggleTaskOfDay_inv: "dayInv day \<Longrightarrow> dayInv (toggleTaskOfDay dn tid day)"
  by (simp add: dayInv_def toggleTaskOfDay_def)

lemma updateNotesOfDay_inv: "dayInv day \<Longrightarrow> dayInv (updateNotesOfDay dn txt' day)"
  by (simp add: dayInv_def updateNotesOfDay_def)

lemma mapActiveDays_inv:
  assumes "list_all planInv ps" and "\<And>day. dayInv day \<Longrightarrow> dayInv (f day)"
  shows "list_all planInv (mapActiveDays a f ps)"
  using assms by (auto simp: mapActiveDays_def list_all_iff planInv_def)

lemma formatDay_inv: "formatDay mk d = Inr day \<Longrightarrow> dayInv day"
  using formatDay_fresh(2) [of mk d day] by (simp add: dayInv_def)

lemma mapResult_formatDay_inv:
  assumes "mapResult (formatDay mk) ds = Inr ys"
  shows "list_all dayInv ys"
  using mapResult_set [OF assms] formatDay_inv by (fastforce simp: list_all_iff)

lemma updatePlanWithChat_inv:
  assumes "updatePlanWithChat parse clock updatedAt p response = Inr p'"
  shows "planInv p'"
  using assms by (rule updatePlanWithChat_Inr) (simp add: planInv_def mapResult_formatDay_inv)

lemma generateLearningPlan_inv:
  assumes "generateLearningPlan parse response = Inr planData"
  shows "planInv (newPlan planData uuid created updated)"
  using assms by (rule generateLearningPlan_Inr) (simp add: planInv_def newPlan_def mapResult_formatDay_inv)

lemma wizardPlan_inv: "wizardPlan p \<Longrightarrow> planInv p"
  by (induction rule: wizardPlan.induct) (auto intro: generateLearningPlan_inv updatePlanWithChat_inv)

lemma autoSelectEffect_plans: "plans (autoSelectEffect now s) = plans s"
  by (simp add: autoSelectEffect_def split: option.splits)

lemma handler_invs:
  assumes "storeInv s"
  shows "storeInv (autoSelectEffect now s)"
    and "storeInv (openPlan now pid s)"
    and "storeInv (handleDeletePlan ident confirmed s)"
    and "storeInv (handleToggleTask dn tid s)"
    and "storeInv (handleUpdateNotes dn txt' s)"
    and "storeInv (handleSessionToggle now dn s)"
    and "planInv p \<Longrightarrow> storeInv (handleCreatePlan p s)"
    and "planInv p \<Longrightarrow> storeInv (handleUpdatePlan p s)"
    and "storeInv (loadEffect (Stored (plans s)) initialState)"
proof -
  from assms have ps: "list_all planInv (plans s)"
    by (simp add: storeInv_def)
  show "storeInv (autoSelectEffect now s)"
    using ps by (simp add: storeInv_def autoSelectEffect_plans)
  show "storeInv (openPlan now pid s)"
    using ps by (simp add: storeInv_def openPlan_def autoSelectEffect_plans)
  show "storeInv (handleDeletePlan ident confirmed s)"
    using ps by (simp add: storeInv_def handleDeletePlan_def Let_def list_all_iff)
  show "storeInv (handleToggleTask dn tid s)"
    using ps mapActiveDays_inv [OF ps toggleTaskOfDay_inv]
    by (simp add: storeInv_def handleToggleTask_def)
  show "storeInv (handleUpdateNotes dn txt' s)"
    using ps mapActiveDays_inv [OF ps updateNotesOfDay_inv]
    by (simp add: storeInv_def handleUpdateNotes_def)
  show "storeInv (handleSessionToggle now dn s)"
    using ps mapActiveDays_inv [OF ps toggleSessionOfDay_inv]
    by (simp add: storeInv_def handleSessionToggle_def)
  show "planInv p \<Longrightarrow> storeInv (handleCreatePlan p s)"
    using ps by (simp add: storeInv_def handleCreatePlan_def)
  show "planInv p \<Longrightarrow> storeInv (handleUpdatePlan p s)"
    using ps by (auto simp: storeInv_def handleUpdatePlan_def list_all_iff)
  show "storeInv (loadEffect (Stored (plans s)) initialState)"
    using ps by (cases "plans s") (simp_all add: storeInv_def loadEffect_def)
qed

lemma reachable_storeInv:
  assumes "reachable s"
  shows "storeInv s"
  using assms
proof (induction rule: reachable.induct)
  case start_absent
  show ?case by (simp add: storeInv_def loadEffect_def initialState_def)
next
  case start_corrupt
  show ?case by (simp add: storeInv_def loadEffect_def initialState_def)
next
  case (view_change s m sel b)
  then show ?case by (simp add: storeInv_def)
next
  case (create_plan s p)
  then show ?case by (simp add: handler_invs wizardPlan_inv)
next
  case (update_plan s s0 p parse clock updatedAt response p')
  then show ?case by (simp add: handler_invs updatePlanWithChat_inv)
qed (simp_all add: handler_invs)

lemma open_session_is_last:
  assumes "openSessionInv ss" and "i < length ss" and "isOpen (ss ! i)"
  shows "i = length ss - 1"
proof (rule ccontr)
  assume "i \<noteq> length ss - 1"
  with assms(2) have i: "i < length (butlast ss)"
    by simp
  from assms(1) have "list_all (\<lambda>x. \<not> isOpen x) (butlast ss)"
    by (simp add: openSessionInv_iff)
  with i have "\<not> isOpen (butlast ss ! i)"
    by (simp add: list_all_length)
  with i assms(3) show False
    by (simp add: nth_butlast)
qed

lemma storeInv_explicit:
  assumes "storeInv s" and "plan \<in> set (plans s)" and "day \<in> set (days plan)"
    and "sessions day = Some ss"
  shows "length (filter isOpen ss) \<le> 1"
    and "\<And>i. i < length ss \<Longrightarrow> isOpen (ss ! i) \<Longrightarrow> i = length ss - 1"
proof -
  from assms(1,2) have "planInv plan"
    by (simp add: storeInv_def list_all_iff)
  with assms(3) have "dayInv day"
    by (simp add: planInv_def list_all_iff)
  with assms(4) have inv: "openSessionInv ss"
    by (simp add: dayInv_def)
  then show "length (filter isOpen ss) \<le> 1"
    by (simp add: openSessionInv_def)
  show "i = length ss - 1" if "i < length ss" and "isOpen (ss ! i)" for i
    using inv that by (rule open_session_is_last)
qed

text \<open>
  C7. In every reachable state every day has at most one open session, and an open
  session is the last of the day's sequence. Each operation keeps the invariant of any
  state that has it: the session toggle, the task toggle, the update of the notes, the
  deletion of a plan, the creation of a plan that \<open>PlanWizard\<close> built, and the replacement
  of a plan by the result of a refinement.
\<close>

theorem reachable_open_session_invariant:
  "(reachable s \<longrightarrow>
      storeInv s
      \<and> (\<forall>plan \<in> set (plans s). \<forall>day \<in> set (days plan). \<forall>ss. sessions day = Some ss \<longrightarrow>
            length (filter isOpen ss) \<le> 1
            \<and> (\<forall>i < length ss. isOpen (ss ! i) \<longrightarrow> i = length ss - 1)))
   \<and> (storeInv s \<longrightarrow>
        storeInv (handleSessionToggle now dn s)
        \<and> storeInv (handleToggleTask dn tid s)
        \<and> storeInv (handleUpdateNotes dn notes' s)
        \<and> storeInv (handleDeletePlan ident confirmed s)
        \<and> (wizardPlan p \<longrightarrow> storeInv (handleCreatePlan p s))
        \<and> (updatePlanWithChat parse clock updatedAt current response = Inr p'
             \<longrightarrow> storeInv (handleUpdatePlan p' s)))"
proof (intro conjI impI)
  assume r: "reachable s"
  then show inv: "storeInv s"
    by (rule reachable_storeInv)
  show "\<forall>plan \<in> set (plans s). \<forall>day \<in> set (days plan). \<forall>ss. sessions day = Some ss \<longrightarrow>
            length (filter isOpen ss) \<le> 1
            \<and> (\<forall>i < length ss. isOpen (ss ! i) \<longrightarrow> i = length ss - 1)"
    using storeInv_explicit [OF inv] by blast
next
  assume inv: "storeInv s"
  show "storeInv (handleSessionToggle now dn s)"
    and "storeInv (handleToggleTask dn tid s)"
    and "storeInv (handleUpdateNotes dn notes' s)"
    and "storeInv (handleDeletePlan ident confirmed s)"
    using inv by (rule handler_invs)+
  show "storeInv (handleCreatePlan p s)" if "wizardPlan p"
    using inv wizardPlan_inv [OF that] by (rule handler_invs)
  show "storeInv (handleUpdatePlan p' s)"
    if "updatePlanWithChat parse clock updatedAt current response = Inr p'"
    using inv updatePlanWithChat_inv [OF that] by (rule handler_invs)
qed

theorem reachable_open_session_invariant_witness:
  "reachable busyState
   \<and> storeInv busyState
   \<and> sessionsAt busyState 0 0 = [\<lparr>start = 1000, endTime = None\<rparr>]
   \<and> reachable (handleSessionToggle 3000 1 (handleSessionToggle 2000 1 busyState))
   \<and> storeInv (handleSessionToggle 3000 1 (handleSessionToggle 2000 1 busyState))
   \<and> sessionsAt (handleSessionToggle 3000 1 (handleSessionToggle 2000 1 busyState)) 0 0
       = [\<lparr>start = 1000, endTime = Some 2000\<rparr>, \<lparr>start = 3000, endTime = None\<rparr>]"
proof -
  let ?t = "dateOf 2024 0 15 + 37800000"
  let ?s0 = "handleCreatePlan examplePlan (loadEffect Absent initialState)"
  let ?s2 = "handleSessionToggle 3000 1 (handleSessionToggle 2000 1 busyState)"
  have g: "generateLearningPlan parsePlan (Inr (Some generationAnswer)) = Inr examplePlanData"
    by code_simp
  have "newPlan examplePlanData ''plan-1'' ?t ?t = examplePlan"
    by (simp add: newPlan_def examplePlanData_def examplePlan_def)
  with wizardPlan.generated [OF g, of "''plan-1''" ?t ?t] have w: "wizardPlan examplePlan"
    by simp
  have r0: "reachable ?s0"
    by (intro reachable.create_plan reachable.start_absent w)
  have "plans ?s0 = [examplePlan]"
    by (simp add: handleCreatePlan_def loadEffect_def initialState_def)
  with reachable.start_stored [OF r0] have r1: "reachable exampleState"
    by (simp add: exampleState_def)
  have r2: "reachable busyState"
    unfolding busyState_def
    by (intro reachable.toggle_session reachable.update_notes reachable.toggle_task r1)
  have r3: "reachable ?s2"
    by (intro reachable.toggle_session r2)
  have v1: "sessionsAt busyState 0 0 = [\<lparr>start = 1000, endTime = None\<rparr>]"
    by code_simp
  have v2: "sessionsAt ?s2 0 0
       = [\<lparr>start = 1000, endTime = Some 2000\<rparr>, \<lparr>start = 3000, endTime = None\<rparr>]"
    by code_simp
  have i1: "storeInv busyState"
    using r2 reachable_open_session_invariant [of busyState] by blast
  have i2: "storeInv ?s2"
    using r3 reachable_open_session_invariant [of ?s2] by blast
  from r2 r3 v1 v2 i1 i2 show ?thesis
    by simp
qed

end
